theory Spec2Isabelle
  imports Complex_Main "HOL-Library.Word" "HOL-Library.Sublist" "HOL-Library.AList"
begin

section \<open>JavaScript values\<close>

text \<open>
  The module \<^verbatim>\<open>src/gigascape-integration.ts\<close> is embedded function by function.
  A value that \<^verbatim>\<open>JSON.parse\<close> or \<^verbatim>\<open>Response.json()\<close> can produce is a \<open>json\<close>; an
  object is the list of its own properties, looked up by name. A number is the real
  number it denotes: the module only tests numbers for truthiness and prints them. A
  string is a list of characters: the module only concatenates strings, compares them
  and tests them for emptiness.
\<close>

datatype json =
    JNull
  | JBool bool
  | JNum real
  | JStr string
  | JArr "json list"
  | JObj "(string \<times> json) list"

text \<open>
  A \<open>js\<close> value is what a variable of the module can hold: \<^verbatim>\<open>undefined\<close>, a JSON
  value, or an exception object (\<^verbatim>\<open>Error\<close>, \<^verbatim>\<open>TypeError\<close>, ...) with its name and
  message. Anything can be thrown, so a thrown value is a \<open>js\<close> too.
\<close>

datatype js =
    Undefined
  | Json json
  | Exception string string

type_synonym thrown = js

text \<open>
  The built-ins of the browser are not part of the repository. They are parameters of
  the model, so every theorem holds for whatever they compute:
  \<^item> \<open>atob\<close> and \<open>JSON_parse\<close> return a value or throw;
  \<^item> \<open>ToString_other\<close> is the string conversion of numbers, arrays and objects
    (it throws for an object whose \<^verbatim>\<open>toString\<close> property is not callable);
  \<^item> \<open>toFixed\<close> is \<^verbatim>\<open>Number.prototype.toFixed\<close>;
  \<^item> \<open>nullish_message\<close> is the engine's text of the \<^verbatim>\<open>TypeError\<close> raised on reading
    a property of \<^verbatim>\<open>null\<close> or \<^verbatim>\<open>undefined\<close>.
\<close>

record platform =
  atob :: "string \<Rightarrow> thrown + string"
  JSON_parse :: "string \<Rightarrow> thrown + json"
  ToString_other :: "json \<Rightarrow> thrown + string"
  toFixed :: "real \<Rightarrow> nat \<Rightarrow> string"
  nullish_message :: "js \<Rightarrow> string \<Rightarrow> string"

text \<open>Truthiness, as \<^verbatim>\<open>!x\<close> and \<^verbatim>\<open>x || y\<close> test it.\<close>

fun truthy :: "js \<Rightarrow> bool" where
  "truthy Undefined = False"
| "truthy (Json JNull) = False"
| "truthy (Json (JBool b)) = b"
| "truthy (Json (JNum x)) = (x \<noteq> 0)"
| "truthy (Json (JStr s)) = (s \<noteq> [])"
| "truthy (Json (JArr xs)) = True"
| "truthy (Json (JObj kvs)) = True"
| "truthy (Exception n m) = True"

definition or_else :: "js \<Rightarrow> js \<Rightarrow> js" where
  "or_else a b = (if truthy a then a else b)"

text \<open>
  Property access \<^verbatim>\<open>v.k\<close>. It throws on \<^verbatim>\<open>null\<close> and \<^verbatim>\<open>undefined\<close>; a primitive or an
  array has none of the properties the module reads (\<^verbatim>\<open>splatId\<close>, \<^verbatim>\<open>apiOrigin\<close>,
  \<^verbatim>\<open>authToken\<close>, \<^verbatim>\<open>error\<close>, \<^verbatim>\<open>uploadUrl\<close>, \<^verbatim>\<open>storagePath\<close>, \<^verbatim>\<open>message\<close>).
\<close>

fun get_prop :: "platform \<Rightarrow> js \<Rightarrow> string \<Rightarrow> thrown + js" where
  "get_prop P Undefined k = Inl (Exception ''TypeError'' (nullish_message P Undefined k))"
| "get_prop P (Json JNull) k = Inl (Exception ''TypeError'' (nullish_message P (Json JNull) k))"
| "get_prop P (Json (JObj kvs)) k =
     Inr (case map_of kvs k of None \<Rightarrow> Undefined | Some v \<Rightarrow> Json v)"
| "get_prop P (Json v) k = Inr Undefined"
| "get_prop P (Exception n m) k =
     Inr (if k = ''message'' then Json (JStr m)
          else if k = ''name'' then Json (JStr n) else Undefined)"

text \<open>String conversion, as a template literal and \<^verbatim>\<open>new Error(x)\<close> apply it.\<close>

fun ToString :: "platform \<Rightarrow> js \<Rightarrow> thrown + string" where
  "ToString P Undefined = Inr ''undefined''"
| "ToString P (Json JNull) = Inr ''null''"
| "ToString P (Json (JBool b)) = Inr (if b then ''true'' else ''false'')"
| "ToString P (Json (JStr s)) = Inr s"
| "ToString P (Json v) = ToString_other P v"
| "ToString P (Exception n m) = Inr (if m = [] then n else n @ '': '' @ m)"

text \<open>
  \<^verbatim>\<open>new Error(x)\<close>: the message is the string of \<open>x\<close>; when the conversion throws, that
  exception is what the \<^verbatim>\<open>throw new Error(x)\<close> statement raises.
\<close>

definition new_Error :: "platform \<Rightarrow> js \<Rightarrow> thrown" where
  "new_Error P x = (case ToString P x of Inl e \<Rightarrow> e | Inr m \<Rightarrow> Exception ''Error'' m)"

text \<open>A non-negative integer in a template literal: its decimal digits.\<close>

fun decimal :: "nat \<Rightarrow> string" where
  "decimal n =
     (if n < 10 then [''0123456789'' ! n]
      else decimal (n div 10) @ [''0123456789'' ! (n mod 10)])"

declare decimal.simps [simp del]

section \<open>Promises, traces and the collaborators\<close>

text \<open>
  An awaited promise is fulfilled, rejected, or stays pending for ever. An async
  function of the module is the promise it returns together with the calls it made on
  its collaborators, in order.
\<close>

datatype 'a promise = Fulfilled 'a | Rejected thrown | Pending

text \<open>
  A splat element of the scene, with the two properties the module reads. Of the host's
  element kinds the module names only \<^verbatim>\<open>ElementType.splat\<close>; the others are not told
  apart.
\<close>

datatype ElementType = splat | other

record Splat =
  visible :: bool
  numSplats :: int

record SerializeSettings =
  maxSHBands :: nat

type_synonym byte = "8 word"

record Uint8Array =
  buffer :: "byte list"
  byteOffset :: nat
  byteLength :: nat

datatype body =
    JSON_stringify "(string \<times> js) list"
  | Blob "byte list" string

record request =
  url :: js
  http_method :: string
  headers :: "(string \<times> string) list"
  body :: body

record response =
  ok :: bool
  status :: nat
  json :: "json promise"

record popup =
  type :: string
  header :: string
  message :: js

datatype event =
    Fire string
  | Invoke string popup
  | Fetch request
  | SerializePly "Splat list" SerializeSettings
  | Console string string "js list"

text \<open>
  The host, as the module calls it: \<^verbatim>\<open>scene.getElementsByType\<close> (asked for the splats),
  the external serializer (it answers with the \<^verbatim>\<open>results\<close> map of the in-memory file
  system it was given), \<^verbatim>\<open>fetch\<close>, and \<^verbatim>\<open>events.invoke\<close>. Within one save the module never
  repeats a call with the same arguments, so a function of the arguments describes any
  behaviour of a collaborator. Awaiting a collaborator ends in one of the three states
  of its promise. \<^verbatim>\<open>events.fire\<close> and \<^verbatim>\<open>console\<close> are recorded in the trace and return.
\<close>

record host =
  getElementsByType :: "ElementType \<Rightarrow> Splat list"
  serializePly :: "Splat list \<Rightarrow> SerializeSettings \<Rightarrow> (string \<rightharpoonup> Uint8Array) promise"
  fetch :: "request \<Rightarrow> response promise"
  invoke :: "string \<Rightarrow> popup \<Rightarrow> unit promise"

type_synonym 'a async = "'a promise \<times> event list"

text \<open>
  The statements of an async function, in sequence: \<open>await m k\<close> runs \<open>m\<close> and, when it
  is fulfilled, goes on with \<open>k\<close>; a rejection or a promise that stays pending ends the
  function there. \<open>emit\<close> is a call of \<^verbatim>\<open>events.fire\<close> or \<^verbatim>\<open>console\<close>, \<open>call\<close> a call of
  a collaborator that answers with a promise, \<open>settle\<close> a promise awaited without a call
  (\<^verbatim>\<open>res.json()\<close>), \<open>sync\<close> an expression that returns or throws, \<open>throw\<close> a
  \<^verbatim>\<open>throw\<close> statement. \<open>promise_catch\<close> is \<^verbatim>\<open>promise.catch(f)\<close>; \<open>try_catch\<close> and
  \<open>try_finally\<close> are the blocks of a \<^verbatim>\<open>try\<close> statement, the \<^verbatim>\<open>finally\<close> block being a list
  of events fired.
\<close>

definition await :: "'a async \<Rightarrow> ('a \<Rightarrow> 'b async) \<Rightarrow> 'b async" where
  "await m k =
     (case m of
        (Fulfilled x, t) \<Rightarrow> (case k x of (r, t') \<Rightarrow> (r, t @ t'))
      | (Rejected e, t) \<Rightarrow> (Rejected e, t)
      | (Pending, t) \<Rightarrow> (Pending, t))"

definition emit :: "event \<Rightarrow> unit async" where
  "emit ev = (Fulfilled (), [ev])"

definition call :: "event \<Rightarrow> 'a promise \<Rightarrow> 'a async" where
  "call ev p = (p, [ev])"

definition settle :: "'a promise \<Rightarrow> 'a async" where
  "settle p = (p, [])"

definition throw :: "thrown \<Rightarrow> 'a async" where
  "throw e = (Rejected e, [])"

definition sync :: "thrown + 'a \<Rightarrow> 'a async" where
  "sync v = (case v of Inl e \<Rightarrow> (Rejected e, []) | Inr x \<Rightarrow> (Fulfilled x, []))"

definition promise_catch :: "'a promise \<Rightarrow> (thrown \<Rightarrow> 'a) \<Rightarrow> 'a promise" where
  "promise_catch p f =
     (case p of
        Rejected e \<Rightarrow> Fulfilled (f e)
      | Fulfilled x \<Rightarrow> Fulfilled x
      | Pending \<Rightarrow> Pending)"

definition try_catch :: "'a async \<Rightarrow> (thrown \<Rightarrow> 'a async) \<Rightarrow> 'a async" where
  "try_catch m h =
     (case m of
        (Rejected e, t) \<Rightarrow> (case h e of (r, t') \<Rightarrow> (r, t @ t'))
      | (Fulfilled x, t) \<Rightarrow> (Fulfilled x, t)
      | (Pending, t) \<Rightarrow> (Pending, t))"

definition try_finally :: "'a async \<Rightarrow> event list \<Rightarrow> 'a async" where
  "try_finally m f =
     (case m of
        (Pending, t) \<Rightarrow> (Pending, t)
      | (Fulfilled x, t) \<Rightarrow> (Fulfilled x, t @ f)
      | (Rejected e, t) \<Rightarrow> (Rejected e, t @ f))"

section \<open>The configuration resolver\<close>

text \<open>
  \<^verbatim>\<open>new URLSearchParams(window.location.search)\<close> is the list of name-value pairs of the
  query; \<^verbatim>\<open>get\<close> is the value of the first pair with the name, \<^verbatim>\<open>has\<close> tells whether
  there is one.
\<close>

type_synonym URLSearchParams = "(string \<times> string) list"

fun URLSearchParams_get :: "URLSearchParams \<Rightarrow> string \<Rightarrow> string option" where
  "URLSearchParams_get [] name = None"
| "URLSearchParams_get ((n, v) # ps) name =
     (if n = name then Some v else URLSearchParams_get ps name)"

fun URLSearchParams_has :: "URLSearchParams \<Rightarrow> string \<Rightarrow> bool" where
  "URLSearchParams_has [] name = False"
| "URLSearchParams_has ((n, v) # ps) name = (n = name \<or> URLSearchParams_has ps name)"

text \<open>The body of the \<^verbatim>\<open>try\<close> block of \<^verbatim>\<open>parseGsConfig\<close>: a result and its warnings, or a throw.\<close>

definition parseGsConfig_try :: "platform \<Rightarrow> string \<Rightarrow> thrown + (json option \<times> event list)" where
  "parseGsConfig_try P encoded =
     (case atob P encoded of
        Inl e \<Rightarrow> Inl e
      | Inr text \<Rightarrow>
     (case JSON_parse P text of
        Inl e \<Rightarrow> Inl e
      | Inr config \<Rightarrow>
     (case get_prop P (Json config) ''splatId'' of
        Inl e \<Rightarrow> Inl e
      | Inr splatId \<Rightarrow>
     if \<not> truthy splatId
     then Inr (None, [Console ''warn'' ''[GigaScape] gsConfig missing required fields'' []])
     else
     (case get_prop P (Json config) ''apiOrigin'' of
        Inl e \<Rightarrow> Inl e
      | Inr apiOrigin \<Rightarrow>
     if \<not> truthy apiOrigin
     then Inr (None, [Console ''warn'' ''[GigaScape] gsConfig missing required fields'' []])
     else
     (case get_prop P (Json config) ''authToken'' of
        Inl e \<Rightarrow> Inl e
      | Inr authToken \<Rightarrow>
     if \<not> truthy authToken
     then Inr (None, [Console ''warn'' ''[GigaScape] gsConfig missing required fields'' []])
     else Inr (Some config, []))))))"

definition parseGsConfig :: "platform \<Rightarrow> URLSearchParams \<Rightarrow> json option \<times> event list" where
  "parseGsConfig P params =
     (case URLSearchParams_get params ''gsConfig'' of
        None \<Rightarrow> (None, [])
      | Some encoded \<Rightarrow>
          if encoded = [] then (None, [])
          else
            (case parseGsConfig_try P encoded of
               Inl e \<Rightarrow> (None, [Console ''warn'' ''[GigaScape] Failed to parse gsConfig:'' [e]])
             | Inr r \<Rightarrow> r))"

definition isGigaScapeMode :: "URLSearchParams \<Rightarrow> bool" where
  "isGigaScapeMode params = URLSearchParams_has params ''gsConfig''"

section \<open>The save pipeline\<close>

definition serializeSceneToPly :: "host \<Rightarrow> Uint8Array async" where
  "serializeSceneToPly H =
     (let splats = filter (\<lambda>splat. numSplats splat > 0)
                     (filter (\<lambda>splat. visible splat) (getElementsByType H splat))
      in if length splats = 0 then throw (Exception ''Error'' ''No splats to save'')
         else
           let settings = \<lparr>maxSHBands = 3\<rparr> in
           await (call (SerializePly splats settings) (serializePly H splats settings)) (\<lambda>results.
           case results ''output.ply'' of
             None \<Rightarrow> throw (Exception ''Error'' ''PLY serialization produced no output'')
           | Some data \<Rightarrow> settle (Fulfilled data)))"

definition getUploadUrl :: "platform \<Rightarrow> host \<Rightarrow> json \<Rightarrow> nat \<Rightarrow> json async" where
  "getUploadUrl P H gsConfig fileSize =
     await (sync (get_prop P (Json gsConfig) ''apiOrigin'')) (\<lambda>apiOrigin.
     await (sync (ToString P apiOrigin)) (\<lambda>origin.
     await (sync (get_prop P (Json gsConfig) ''authToken'')) (\<lambda>authToken.
     await (sync (ToString P authToken)) (\<lambda>token.
     await (sync (get_prop P (Json gsConfig) ''splatId'')) (\<lambda>splatId.
     let req = \<lparr>url = Json (JStr (origin @ ''/api/supersplat/upload-url'')),
                http_method = ''POST'',
                headers = [(''Authorization'', ''Bearer '' @ token),
                           (''Content-Type'', ''application/json'')],
                body = JSON_stringify [(''splatId'', splatId),
                                       (''fileSize'', Json (JNum (real fileSize)))]\<rparr>
     in
     await (call (Fetch req) (fetch H req)) (\<lambda>res.
     if \<not> ok res then
       await (settle (promise_catch (json res)
                (\<lambda>_. JObj [(''error'', JStr (''HTTP '' @ decimal (status res)))]))) (\<lambda>err.
       await (sync (get_prop P (Json err) ''error'')) (\<lambda>error.
       throw (new_Error P (or_else error
                (Json (JStr (''Failed to get upload URL ('' @ decimal (status res) @ '')'')))))))
     else settle (json res)))))))"

definition uploadToGcs :: "host \<Rightarrow> js \<Rightarrow> Uint8Array \<Rightarrow> unit async" where
  "uploadToGcs H uploadUrl data =
     (let req = \<lparr>url = uploadUrl,
                 http_method = ''PUT'',
                 headers = [(''Content-Type'', ''application/octet-stream'')],
                 body = Blob (buffer data) ''application/octet-stream''\<rparr>
      in
      await (call (Fetch req) (fetch H req)) (\<lambda>res.
      if \<not> ok res then
        throw (Exception ''Error'' (''Upload to GCS failed ('' @ decimal (status res) @ '')''))
      else settle (Fulfilled ())))"

definition notifySaveComplete :: "platform \<Rightarrow> host \<Rightarrow> json \<Rightarrow> js \<Rightarrow> unit async" where
  "notifySaveComplete P H gsConfig storagePath =
     await (sync (get_prop P (Json gsConfig) ''apiOrigin'')) (\<lambda>apiOrigin.
     await (sync (ToString P apiOrigin)) (\<lambda>origin.
     await (sync (get_prop P (Json gsConfig) ''authToken'')) (\<lambda>authToken.
     await (sync (ToString P authToken)) (\<lambda>token.
     await (sync (get_prop P (Json gsConfig) ''splatId'')) (\<lambda>splatId.
     let req = \<lparr>url = Json (JStr (origin @ ''/api/supersplat/save-complete'')),
                http_method = ''POST'',
                headers = [(''Authorization'', ''Bearer '' @ token),
                           (''Content-Type'', ''application/json'')],
                body = JSON_stringify [(''splatId'', splatId),
                                       (''storagePath'', storagePath)]\<rparr>
     in
     await (call (Fetch req) (fetch H req)) (\<lambda>res.
     if \<not> ok res then
       await (settle (promise_catch (json res)
                (\<lambda>_. JObj [(''error'', JStr (''HTTP '' @ decimal (status res)))]))) (\<lambda>err.
       await (sync (get_prop P (Json err) ''error'')) (\<lambda>error.
       throw (new_Error P (or_else error
                (Json (JStr (''Save notification failed ('' @ decimal (status res) @ '')'')))))))
     else settle (Fulfilled ())))))))"

text \<open>The \<^verbatim>\<open>try\<close> block of the save handler.\<close>

definition save_try :: "platform \<Rightarrow> host \<Rightarrow> json \<Rightarrow> unit async" where
  "save_try P H gsConfig =
     await (serializeSceneToPly H) (\<lambda>plyData.
     await (emit (Console ''log''
              (''[GigaScape] Serialized PLY: ''
                 @ toFixed P (real (byteLength plyData) / 1024 / 1024) 1 @ '' MB'') [])) (\<lambda>_.
     await (getUploadUrl P H gsConfig (byteLength plyData)) (\<lambda>ticket.
     await (sync (get_prop P (Json ticket) ''uploadUrl'')) (\<lambda>uploadUrl.
     await (sync (get_prop P (Json ticket) ''storagePath'')) (\<lambda>storagePath.
     await (sync (ToString P storagePath)) (\<lambda>path.
     await (emit (Console ''log'' (''[GigaScape] Got upload URL, path: '' @ path) [])) (\<lambda>_.
     await (uploadToGcs H uploadUrl plyData) (\<lambda>_.
     await (emit (Console ''log'' ''[GigaScape] Upload complete'' [])) (\<lambda>_.
     await (notifySaveComplete P H gsConfig storagePath) (\<lambda>_.
     await (emit (Console ''log'' ''[GigaScape] Save complete'' [])) (\<lambda>_.
     let p = \<lparr>type = ''info'',
              header = ''Saved to GigaScape'',
              message = Json (JStr ''Your edited splat has been saved. Return to your library to create tiles.'')\<rparr>
     in call (Invoke ''showPopup'' p) (invoke H ''showPopup'' p))))))))))))"

text \<open>The \<^verbatim>\<open>catch\<close> block of the save handler.\<close>

definition save_catch :: "platform \<Rightarrow> host \<Rightarrow> thrown \<Rightarrow> unit async" where
  "save_catch P H error =
     await (emit (Console ''error'' ''[GigaScape] Save failed:'' [error])) (\<lambda>_.
     await (sync (get_prop P error ''message'')) (\<lambda>msg.
     let p = \<lparr>type = ''error'',
              header = ''Save Failed'',
              message = or_else msg (Json (JStr ''Unknown error while saving to GigaScape''))\<rparr>
     in call (Invoke ''showPopup'' p) (invoke H ''showPopup'' p)))"

text \<open>The handler registered as \<^verbatim>\<open>gigascape:save\<close>.\<close>

definition save_handler :: "platform \<Rightarrow> host \<Rightarrow> json \<Rightarrow> unit async" where
  "save_handler P H gsConfig =
     await (emit (Fire ''startSpinner'')) (\<lambda>_.
     try_finally
       (try_catch (save_try P H gsConfig) (save_catch P H))
       [Fire ''stopSpinner''])"

text \<open>
  \<^verbatim>\<open>initGigaScapeIntegration\<close>: the handler it registers, if any, and its console
  output. The module variable \<^verbatim>\<open>gsConfig\<close> is written here once, and the handler
  reads that value.
\<close>

definition initGigaScapeIntegration ::
  "platform \<Rightarrow> host \<Rightarrow> URLSearchParams \<Rightarrow> thrown + ((unit async) option \<times> event list)" where
  "initGigaScapeIntegration P H params =
     (case parseGsConfig P params of
        (None, t) \<Rightarrow> Inr (None, t)
      | (Some gsConfig, t) \<Rightarrow>
          (case get_prop P (Json gsConfig) ''splatId'' of
             Inl e \<Rightarrow> Inl e
           | Inr splatId \<Rightarrow>
               Inr (Some (save_handler P H gsConfig),
                    t @ [Console ''log'' ''[GigaScape] Integration active for splat:'' [splatId]])))"

section \<open>Observations on a trace\<close>

fun fetches :: "event list \<Rightarrow> request list" where
  "fetches [] = []"
| "fetches (Fetch req # t) = req # fetches t"
| "fetches (ev # t) = fetches t"

fun popups :: "event list \<Rightarrow> popup list" where
  "popups [] = []"
| "popups (Invoke name p # t) = (if name = ''showPopup'' then p # popups t else popups t)"
| "popups (ev # t) = popups t"

fun fires :: "event list \<Rightarrow> string list" where
  "fires [] = []"
| "fires (Fire name # t) = name # fires t"
| "fires (ev # t) = fires t"

fun serializer_calls :: "event list \<Rightarrow> Splat list list" where
  "serializer_calls [] = []"
| "serializer_calls (SerializePly splats settings # t) = splats # serializer_calls t"
| "serializer_calls (ev # t) = serializer_calls t"

text \<open>
  The three network phases, as an observer of the requests tells them apart: the
  request for an upload URL, the upload, and the confirmation.
\<close>

fun url_ends_with :: "string \<Rightarrow> js \<Rightarrow> bool" where
  "url_ends_with path (Json (JStr s)) = suffix path s"
| "url_ends_with path v = False"

definition is_upload_url_request :: "request \<Rightarrow> bool" where
  "is_upload_url_request req =
     (http_method req = ''POST'' \<and> url_ends_with ''/api/supersplat/upload-url'' (url req))"

definition is_upload :: "request \<Rightarrow> bool" where
  "is_upload req = (http_method req = ''PUT'')"

definition is_confirmation :: "request \<Rightarrow> bool" where
  "is_confirmation req =
     (http_method req = ''POST'' \<and> url_ends_with ''/api/supersplat/save-complete'' (url req))"

section \<open>The statements of the specification\<close>

text \<open>
  The body of a failed response, as the error rule of the three phases looks at it: it
  carries a non-empty string \<^verbatim>\<open>error\<close>, it is JSON without a truthy \<^verbatim>\<open>error\<close>, it cannot be
  parsed, or it is something else (\<^verbatim>\<open>null\<close>, a truthy \<^verbatim>\<open>error\<close> that is not a string,
  a body that never arrives).
\<close>

datatype body_kind = Error_string string | No_error | Unparseable | Other_body

definition classify :: "platform \<Rightarrow> response \<Rightarrow> body_kind" where
  "classify P res =
     (case json res of
        Rejected e \<Rightarrow> Unparseable
      | Pending \<Rightarrow> Other_body
      | Fulfilled v \<Rightarrow>
          (case get_prop P (Json v) ''error'' of
             Inl e \<Rightarrow> Other_body
           | Inr (Json (JStr s)) \<Rightarrow> if s = [] then No_error else Error_string s
           | Inr x \<Rightarrow> if truthy x then Other_body else No_error))"

definition templated :: "string \<Rightarrow> response \<Rightarrow> string" where
  "templated what res = what @ '' ('' @ decimal (status res) @ '')''"

text \<open>
  The rule as the specification words it for all three phases: the server's error
  string when there is one, else the phase's template with the status code.
\<close>

definition spec_message :: "platform \<Rightarrow> string \<Rightarrow> response \<Rightarrow> string" where
  "spec_message P what res =
     (case classify P res of Error_string s \<Rightarrow> s | other_kind \<Rightarrow> templated what res)"

definition raises :: "'a async \<Rightarrow> string \<Rightarrow> bool" where
  "raises a msg = (fst a = Rejected (Exception ''Error'' msg))"

text \<open>
  What the resolver requires of a parsed configuration: the three properties are
  truthy. A valid configuration in the sense of the specification has them as
  non-empty strings.
\<close>

definition field_truthy :: "platform \<Rightarrow> json \<Rightarrow> string \<Rightarrow> bool" where
  "field_truthy P config k =
     (case get_prop P (Json config) k of Inl e \<Rightarrow> False | Inr v \<Rightarrow> truthy v)"

definition required_fields_truthy :: "platform \<Rightarrow> json \<Rightarrow> bool" where
  "required_fields_truthy P config =
     (field_truthy P config ''splatId'' \<and> field_truthy P config ''apiOrigin''
      \<and> field_truthy P config ''authToken'')"

definition string_field :: "json \<Rightarrow> string \<Rightarrow> bool" where
  "string_field config k =
     (case config of
        JObj kvs \<Rightarrow> (case map_of kvs k of Some (JStr s) \<Rightarrow> s \<noteq> [] | other_value \<Rightarrow> False)
      | other_json \<Rightarrow> False)"

definition valid_config :: "json \<Rightarrow> bool" where
  "valid_config config =
     (string_field config ''splatId'' \<and> string_field config ''apiOrigin''
      \<and> string_field config ''authToken'')"

text \<open>
  Modelled from the spec: the encoder of \<^verbatim>\<open>gsConfig\<close>, which runs on the platform that
  opens the editor and is not in this repository. The specification says of the query
  parameter that it is the base64 of a JSON object. A query value, as
  \<^verbatim>\<open>URLSearchParams.get\<close> returns it, encodes a configuration when it is a non-empty
  string that \<^verbatim>\<open>atob\<close> and \<^verbatim>\<open>JSON.parse\<close> take back to the configuration.
\<close>

definition encodes :: "platform \<Rightarrow> string \<Rightarrow> json \<Rightarrow> bool" where
  "encodes P encoded config =
     (encoded \<noteq> [] \<and>
      (case atob P encoded of
         Inl e \<Rightarrow> False
       | Inr text \<Rightarrow> JSON_parse P text = Inr config))"

text \<open>
  A query value resolves when it decodes, parses, and carries the three required
  properties; the three ways of the specification in which it does not are the
  negation.
\<close>

definition resolves :: "platform \<Rightarrow> string \<Rightarrow> bool" where
  "resolves P encoded =
     (case atob P encoded of
        Inl e \<Rightarrow> False
      | Inr text \<Rightarrow>
          (case JSON_parse P text of
             Inl e \<Rightarrow> False
           | Inr config \<Rightarrow> required_fields_truthy P config))"

definition is_warning :: "event \<Rightarrow> bool" where
  "is_warning ev = (case ev of Console level text args \<Rightarrow> level = ''warn'' | other_event \<Rightarrow> False)"

text \<open>
  An object with its \<^verbatim>\<open>userId\<close> property set to \<open>u\<close> (in place, or added), or removed
  when \<open>u\<close> is \<open>None\<close>.
\<close>

definition with_userId :: "json option \<Rightarrow> (string \<times> json) list \<Rightarrow> json" where
  "with_userId u kvs =
     JObj (case u of
             None \<Rightarrow> AList.delete ''userId'' kvs
           | Some v \<Rightarrow> AList.update ''userId'' v kvs)"

section \<open>The stages of a save\<close>

text \<open>
  Names for the parts of the handler that the proofs go through one at a time: the two
  popups, the requests of the three phases, the common failure of phases 1 and 3, and
  the rest of the \<^verbatim>\<open>try\<close> block after the export, after the ticket and after the upload.
\<close>

abbreviation success_popup :: popup where
  "success_popup \<equiv>
     \<lparr>type = ''info'', header = ''Saved to GigaScape'',
      message = Json (JStr ''Your edited splat has been saved. Return to your library to create tiles.'')\<rparr>"

abbreviation error_popup :: "string \<Rightarrow> popup" where
  "error_popup msg \<equiv> \<lparr>type = ''error'', header = ''Save Failed'', message = Json (JStr msg)\<rparr>"

definition api_request :: "platform \<Rightarrow> json \<Rightarrow> string \<Rightarrow> (string \<times> js) list \<Rightarrow> thrown + request" where
  "api_request P gsConfig path payload =
     (case get_prop P (Json gsConfig) ''apiOrigin'' of Inl e \<Rightarrow> Inl e | Inr apiOrigin \<Rightarrow>
     (case ToString P apiOrigin of Inl e \<Rightarrow> Inl e | Inr origin \<Rightarrow>
     (case get_prop P (Json gsConfig) ''authToken'' of Inl e \<Rightarrow> Inl e | Inr authToken \<Rightarrow>
     (case ToString P authToken of Inl e \<Rightarrow> Inl e | Inr token \<Rightarrow>
     (case get_prop P (Json gsConfig) ''splatId'' of Inl e \<Rightarrow> Inl e | Inr splatId \<Rightarrow>
        Inr \<lparr>url = Json (JStr (origin @ path)),
             http_method = ''POST'',
             headers = [(''Authorization'', ''Bearer '' @ token),
                        (''Content-Type'', ''application/json'')],
             body = JSON_stringify ((''splatId'', splatId) # payload)\<rparr>)))))"

definition api_failure :: "platform \<Rightarrow> string \<Rightarrow> response \<Rightarrow> 'a promise" where
  "api_failure P what res =
     (case json res of
        Pending \<Rightarrow> Pending
      | Rejected e \<Rightarrow> Rejected (Exception ''Error'' (''HTTP '' @ decimal (status res)))
      | Fulfilled err \<Rightarrow>
          (case get_prop P (Json err) ''error'' of
             Inl e \<Rightarrow> Rejected e
           | Inr error \<Rightarrow>
               Rejected (new_Error P (or_else error
                 (Json (JStr (what @ '' ('' @ decimal (status res) @ '')'')))))))"

definition put_request :: "js \<Rightarrow> Uint8Array \<Rightarrow> request" where
  "put_request u d =
     \<lparr>url = u, http_method = ''PUT'',
      headers = [(''Content-Type'', ''application/octet-stream'')],
      body = Blob (buffer d) ''application/octet-stream''\<rparr>"

definition confirm_stage :: "platform \<Rightarrow> host \<Rightarrow> json \<Rightarrow> js \<Rightarrow> unit async" where
  "confirm_stage P H gsConfig storagePath =
     await (emit (Console ''log'' ''[GigaScape] Upload complete'' [])) (\<lambda>_.
     await (notifySaveComplete P H gsConfig storagePath) (\<lambda>_.
     await (emit (Console ''log'' ''[GigaScape] Save complete'' [])) (\<lambda>_.
     call (Invoke ''showPopup'' success_popup) (invoke H ''showPopup'' success_popup))))"

definition upload_stage :: "platform \<Rightarrow> host \<Rightarrow> json \<Rightarrow> Uint8Array \<Rightarrow> json \<Rightarrow> unit async" where
  "upload_stage P H gsConfig plyData ticket =
     await (sync (get_prop P (Json ticket) ''uploadUrl'')) (\<lambda>uploadUrl.
     await (sync (get_prop P (Json ticket) ''storagePath'')) (\<lambda>storagePath.
     await (sync (ToString P storagePath)) (\<lambda>path.
     await (emit (Console ''log'' (''[GigaScape] Got upload URL, path: '' @ path) [])) (\<lambda>_.
     await (uploadToGcs H uploadUrl plyData) (\<lambda>_.
     confirm_stage P H gsConfig storagePath)))))"

definition request_stage :: "platform \<Rightarrow> host \<Rightarrow> json \<Rightarrow> Uint8Array \<Rightarrow> unit async" where
  "request_stage P H gsConfig plyData =
     await (emit (Console ''log''
              (''[GigaScape] Serialized PLY: ''
                 @ toFixed P (real (byteLength plyData) / 1024 / 1024) 1 @ '' MB'') [])) (\<lambda>_.
     await (getUploadUrl P H gsConfig (byteLength plyData)) (\<lambda>ticket.
     upload_stage P H gsConfig plyData ticket))"

definition succeeds :: "host \<Rightarrow> request \<Rightarrow> bool" where
  "succeeds H req = (case fetch H req of Fulfilled res \<Rightarrow> ok res | other_outcome \<Rightarrow> False)"


text \<open>
  How far a run of the \<^verbatim>\<open>try\<close> block gets: it ends before any request, after the
  request for an upload URL, after the upload, or after the confirmation, which fails
  or succeeds.
\<close>

inductive save_run :: "platform \<Rightarrow> host \<Rightarrow> unit async \<Rightarrow> bool" for P H where
  at_export:
    "fetches t = [] \<Longrightarrow> popups t = [] \<Longrightarrow> r \<noteq> Fulfilled () \<Longrightarrow> save_run P H (r, t)"
| at_request:
    "fetches t = [r1] \<Longrightarrow> is_upload_url_request r1 \<Longrightarrow> popups t = [] \<Longrightarrow> r \<noteq> Fulfilled () \<Longrightarrow>
     (\<forall>res. fetch H r1 = Fulfilled res \<longrightarrow> \<not> ok res \<longrightarrow>
        r = api_failure P ''Failed to get upload URL'' res) \<Longrightarrow>
     save_run P H (r, t)"
| at_upload:
    "fetches t = [r1, r2] \<Longrightarrow> is_upload_url_request r1 \<Longrightarrow> is_upload r2 \<Longrightarrow>
     fetch H r1 = Fulfilled res1 \<Longrightarrow> ok res1 \<Longrightarrow> json res1 = Fulfilled ticket \<Longrightarrow>
     popups t = [] \<Longrightarrow> r \<noteq> Fulfilled () \<Longrightarrow>
     (\<forall>res. fetch H r2 = Fulfilled res \<longrightarrow> \<not> ok res \<longrightarrow>
        r = Rejected (Exception ''Error'' (''Upload to GCS failed ('' @ decimal (status res) @ '')''))) \<Longrightarrow>
     save_run P H (r, t)"
| at_confirm_failed:
    "fetches t = [r1, r2, r3] \<Longrightarrow> is_upload_url_request r1 \<Longrightarrow> is_upload r2 \<Longrightarrow>
     is_confirmation r3 \<Longrightarrow>
     fetch H r1 = Fulfilled res1 \<Longrightarrow> ok res1 \<Longrightarrow> json res1 = Fulfilled ticket \<Longrightarrow>
     fetch H r2 = Fulfilled res2 \<Longrightarrow> ok res2 \<Longrightarrow>
     get_prop P (Json ticket) ''storagePath'' = Inr sp \<Longrightarrow>
     body r3 = JSON_stringify [(''splatId'', sid), (''storagePath'', sp)] \<Longrightarrow>
     \<not> succeeds H r3 \<Longrightarrow>
     popups t = [] \<Longrightarrow> r \<noteq> Fulfilled () \<Longrightarrow>
     (\<forall>res. fetch H r3 = Fulfilled res \<longrightarrow> r = api_failure P ''Save notification failed'' res) \<Longrightarrow>
     save_run P H (r, t)"
| at_confirmed:
    "fetches t = [r1, r2, r3] \<Longrightarrow> is_upload_url_request r1 \<Longrightarrow> is_upload r2 \<Longrightarrow>
     is_confirmation r3 \<Longrightarrow>
     fetch H r1 = Fulfilled res1 \<Longrightarrow> ok res1 \<Longrightarrow> json res1 = Fulfilled ticket \<Longrightarrow>
     fetch H r2 = Fulfilled res2 \<Longrightarrow> ok res2 \<Longrightarrow>
     get_prop P (Json ticket) ''storagePath'' = Inr sp \<Longrightarrow>
     body r3 = JSON_stringify [(''splatId'', sid), (''storagePath'', sp)] \<Longrightarrow>
     succeeds H r3 \<Longrightarrow>
     popups t = [success_popup] \<Longrightarrow> r = invoke H ''showPopup'' success_popup \<Longrightarrow>
     save_run P H (r, t)"

section \<open>A browser and some hosts to run the module on\<close>

text \<open>
  The answers of a browser on the arguments the examples below pass: \<^verbatim>\<open>atob\<close> and
  \<^verbatim>\<open>JSON.parse\<close> on a few query values (the tables answer anything else with an
  exception), \<^verbatim>\<open>toFixed\<close> on the size of the sample export. The examples never
  convert a number, an array or an object to a string.
\<close>

definition sample_config :: json where
  "sample_config =
     JObj [(''splatId'', JStr ''splat-42''), (''userId'', JStr ''user-7''),
           (''apiOrigin'', JStr ''https://gigascape.example''), (''authToken'', JStr ''token'')]"

definition sample_atob :: "string \<Rightarrow> thrown + string" where
  \<open>sample_atob s =
     (case map_of
        [([], []),
         (''eyJzcGxhdElkIjoic3BsYXQtNDIiLCJ1c2VySWQiOiJ1c2VyLTciLCJhcGlPcmlnaW4iOiJodHRwczovL2dpZ2FzY2FwZS5leGFtcGxlIiwiYXV0aFRva2VuIjoidG9rZW4ifQ=='',
          ''{"splatId":"splat-42","userId":"user-7","apiOrigin":"https://gigascape.example","authToken":"token"}''),
         (''eyJzcGxhdElkIjoic3BsYXQtNDIiLCJhcGlPcmlnaW4iOiJodHRwczovL2dpZ2FzY2FwZS5leGFtcGxlIiwiYXV0aFRva2VuIjoidG9rZW4ifQ=='',
          ''{"splatId":"splat-42","apiOrigin":"https://gigascape.example","authToken":"token"}''),
         (''eyJzcGxhdElkIjoic3BsYXQtNDIiLCJ1c2VySWQiOiIiLCJhcGlPcmlnaW4iOiJodHRwczovL2dpZ2FzY2FwZS5leGFtcGxlIiwiYXV0aFRva2VuIjoidG9rZW4ifQ=='',
          ''{"splatId":"splat-42","userId":"","apiOrigin":"https://gigascape.example","authToken":"token"}''),
         (''eyJzcGxhdElkIjoic3BsYXQtNDIiLCJ1c2VySWQiOjcsImFwaU9yaWdpbiI6Imh0dHBzOi8vZ2lnYXNjYXBlLmV4YW1wbGUiLCJhdXRoVG9rZW4iOiJ0b2tlbiJ9'',
          ''{"splatId":"splat-42","userId":7,"apiOrigin":"https://gigascape.example","authToken":"token"}''),
         (''eyJzcGxhdElkIjoic3BsYXQtNDIiLCJ1c2VySWQiOiJ1c2VyLTciLCJhcGlPcmlnaW4iOiJodHRwczovL2dpZ2FzY2FwZS5leGFtcGxlIn0='',
          ''{"splatId":"splat-42","userId":"user-7","apiOrigin":"https://gigascape.example"}''),
         (''bnVsbA=='', ''null''),
         (''bm90IGpzb24='', ''not json'')] s of
        Some text \<Rightarrow> Inr text
      | None \<Rightarrow>
          Inl (Exception ''InvalidCharacterError''
                 ''The string to be decoded is not correctly encoded.''))\<close>

definition sample_JSON_parse :: "string \<Rightarrow> thrown + json" where
  \<open>sample_JSON_parse text =
     (case map_of
        [(''{"splatId":"splat-42","userId":"user-7","apiOrigin":"https://gigascape.example","authToken":"token"}'',
          sample_config),
         (''{"splatId":"splat-42","apiOrigin":"https://gigascape.example","authToken":"token"}'',
          JObj [(''splatId'', JStr ''splat-42''),
                (''apiOrigin'', JStr ''https://gigascape.example''),
                (''authToken'', JStr ''token'')]),
         (''{"splatId":"splat-42","userId":"","apiOrigin":"https://gigascape.example","authToken":"token"}'',
          JObj [(''splatId'', JStr ''splat-42''), (''userId'', JStr []),
                (''apiOrigin'', JStr ''https://gigascape.example''),
                (''authToken'', JStr ''token'')]),
         (''{"splatId":"splat-42","userId":7,"apiOrigin":"https://gigascape.example","authToken":"token"}'',
          JObj [(''splatId'', JStr ''splat-42''), (''userId'', JNum 7),
                (''apiOrigin'', JStr ''https://gigascape.example''),
                (''authToken'', JStr ''token'')]),
         (''{"splatId":"splat-42","userId":"user-7","apiOrigin":"https://gigascape.example"}'',
          JObj [(''splatId'', JStr ''splat-42''), (''userId'', JStr ''user-7''),
                (''apiOrigin'', JStr ''https://gigascape.example'')]),
         (''null'', JNull)] text of
        Some v \<Rightarrow> Inr v
      | None \<Rightarrow> Inl (Exception ''SyntaxError'' ''The text is not valid JSON''))\<close>

definition browser :: platform where
  "browser =
     \<lparr>atob = sample_atob,
      JSON_parse = sample_JSON_parse,
      ToString_other = (\<lambda>v. Inr ''[object Object]''),
      toFixed = (\<lambda>x digits. ''0.0''),
      nullish_message = (\<lambda>v k. ''Cannot read properties of null'')\<rparr>"

text \<open>
  A scene with a visible splat of three points and an empty one, a serializer that
  writes three bytes, and a network scripted by the responses of the three phases.
\<close>

definition sample_scene :: "Splat list" where
  "sample_scene = [\<lparr>visible = True, numSplats = 3\<rparr>, \<lparr>visible = True, numSplats = 0\<rparr>]"

definition sample_ply :: Uint8Array where
  "sample_ply = \<lparr>buffer = [0x70, 0x6C, 0x79], byteOffset = 0, byteLength = 3\<rparr>"

definition scripted :: "response \<Rightarrow> response \<Rightarrow> response \<Rightarrow> request \<Rightarrow> response promise" where
  "scripted res1 res2 res3 req =
     Fulfilled
       (if http_method req = ''PUT'' then res2
        else if url req = Json (JStr ''https://gigascape.example/api/supersplat/upload-url'')
        then res1 else res3)"

definition sample_host ::
  "Splat list \<Rightarrow> (request \<Rightarrow> response promise) \<Rightarrow> (popup \<Rightarrow> unit promise) \<Rightarrow> host" where
  "sample_host scene net show_popup =
     \<lparr>getElementsByType = (\<lambda>kind. case kind of splat \<Rightarrow> scene | other \<Rightarrow> []),
      serializePly = (\<lambda>splats settings. Fulfilled [''output.ply'' \<mapsto> sample_ply]),
      fetch = net,
      invoke = (\<lambda>name p. show_popup p)\<rparr>"

definition ticket_response :: response where
  "ticket_response =
     \<lparr>ok = True, status = 200,
      json = Fulfilled (JObj [(''uploadUrl'', JStr ''https://storage.example/signed''),
                              (''storagePath'', JStr ''splats/splat-42/edited.ply'')])\<rparr>"

definition empty_ok_response :: response where
  "empty_ok_response =
     \<lparr>ok = True, status = 200,
      json = Rejected (Exception ''SyntaxError'' ''Unexpected end of JSON input'')\<rparr>"

definition token_expired_response :: response where
  "token_expired_response =
     \<lparr>ok = False, status = 403,
      json = Fulfilled (JObj [(''error'', JStr ''token expired'')])\<rparr>"

definition server_error_response :: response where
  "server_error_response =
     \<lparr>ok = False, status = 500,
      json = Rejected (Exception ''SyntaxError'' ''Unexpected end of JSON input'')\<rparr>"

definition quota_response :: response where
  "quota_response =
     \<lparr>ok = False, status = 403,
      json = Fulfilled (JObj [(''error'', JStr ''quota exceeded'')])\<rparr>"

definition bad_gateway_response :: response where
  "bad_gateway_response = \<lparr>ok = False, status = 502, json = Fulfilled (JObj [])\<rparr>"

text \<open>The hosts of the examples, and the requests the module sends them.\<close>

definition host_server_error :: host where
  "host_server_error =
     sample_host sample_scene
       (scripted server_error_response empty_ok_response empty_ok_response)
       (\<lambda>p. Fulfilled ())"

definition host_quota :: host where
  "host_quota =
     sample_host sample_scene
       (scripted ticket_response quota_response empty_ok_response)
       (\<lambda>p. Fulfilled ())"

definition host_confirm_fails :: host where
  "host_confirm_fails =
     sample_host sample_scene
       (scripted ticket_response empty_ok_response bad_gateway_response)
       (\<lambda>p. Fulfilled ())"

definition host_ok :: host where
  "host_ok =
     sample_host sample_scene (scripted ticket_response empty_ok_response empty_ok_response)
       (\<lambda>p. Fulfilled ())"

definition host_token_expired :: host where
  "host_token_expired =
     sample_host sample_scene
       (scripted token_expired_response empty_ok_response empty_ok_response)
       (\<lambda>p. Fulfilled ())"

definition host_upload_fails :: host where
  "host_upload_fails =
     sample_host sample_scene
       (scripted ticket_response server_error_response empty_ok_response)
       (\<lambda>p. Fulfilled ())"

definition host_popup_fails :: host where
  "host_popup_fails =
     sample_host sample_scene (scripted ticket_response empty_ok_response empty_ok_response)
       (\<lambda>p. if type p = ''info'' then Rejected (Exception ''Error'' ''popup closed'')
             else Fulfilled ())"


definition host_empty_scene :: host where
  "host_empty_scene =
     sample_host [\<lparr>visible = False, numSplats = 3\<rparr>, \<lparr>visible = True, numSplats = 0\<rparr>]
       (scripted ticket_response empty_ok_response empty_ok_response)
       (\<lambda>p. Fulfilled ())"

definition sample_upload_url_request :: request where
  "sample_upload_url_request =
     \<lparr>url = Json (JStr ''https://gigascape.example/api/supersplat/upload-url''),
      http_method = ''POST'',
      headers = [(''Authorization'', ''Bearer token''), (''Content-Type'', ''application/json'')],
      body = JSON_stringify [(''splatId'', Json (JStr ''splat-42'')),
                             (''fileSize'', Json (JNum 3))]\<rparr>"

definition sample_upload :: request where
  "sample_upload =
     \<lparr>url = Json (JStr ''https://storage.example/signed''),
      http_method = ''PUT'',
      headers = [(''Content-Type'', ''application/octet-stream'')],
      body = Blob [0x70, 0x6C, 0x79] ''application/octet-stream''\<rparr>"

definition sample_confirmation :: request where
  "sample_confirmation =
     \<lparr>url = Json (JStr ''https://gigascape.example/api/supersplat/save-complete''),
      http_method = ''POST'',
      headers = [(''Authorization'', ''Bearer token''), (''Content-Type'', ''application/json'')],
      body = JSON_stringify [(''splatId'', Json (JStr ''splat-42'')),
                             (''storagePath'', Json (JStr ''splats/splat-42/edited.ply''))]\<rparr>"

section \<open>Running the combinators\<close>

lemma await_pair [simp]:
  "await (p, t) k =
     (case p of
        Fulfilled x \<Rightarrow> (fst (k x), t @ snd (k x))
      | Rejected e \<Rightarrow> (Rejected e, t)
      | Pending \<Rightarrow> (Pending, t))"
  by (simp add: await_def split: prod.splits promise.splits)

lemma await_sync [simp]:
  "await (sync v) k = (case v of Inl e \<Rightarrow> (Rejected e, []) | Inr x \<Rightarrow> k x)"
  by (simp add: sync_def split: sum.splits)

lemma await_emit [simp]: "await (emit ev) k = (fst (k ()), ev # snd (k ()))"
  by (simp add: emit_def)

lemma await_call [simp]:
  "await (call ev p) k =
     (case p of
        Fulfilled x \<Rightarrow> (fst (k x), ev # snd (k x))
      | Rejected e \<Rightarrow> (Rejected e, [ev])
      | Pending \<Rightarrow> (Pending, [ev]))"
  by (simp add: call_def split: promise.splits)

lemma await_settle [simp]:
  "await (settle p) k =
     (case p of
        Fulfilled x \<Rightarrow> k x
      | Rejected e \<Rightarrow> (Rejected e, [])
      | Pending \<Rightarrow> (Pending, []))"
  by (simp add: settle_def split: promise.splits)

lemma fetches_append [simp]: "fetches (a @ b) = fetches a @ fetches b"
  by (induction a rule: fetches.induct) auto

lemma popups_append [simp]: "popups (a @ b) = popups a @ popups b"
  by (induction a rule: popups.induct) auto

lemma fires_append [simp]: "fires (a @ b) = fires a @ fires b"
  by (induction a rule: fires.induct) auto

lemma serializer_calls_append [simp]:
  "serializer_calls (a @ b) = serializer_calls a @ serializer_calls b"
  by (induction a rule: serializer_calls.induct) auto

lemma set_fetches: "req \<in> set (fetches t) \<longleftrightarrow> Fetch req \<in> set t"
  by (induction t rule: fetches.induct) auto

section \<open>The three phases, one request each\<close>

lemma getUploadUrl_eq:
  "getUploadUrl P H cfg n =
     (case api_request P cfg ''/api/supersplat/upload-url''
             [(''fileSize'', Json (JNum (real n)))] of
        Inl e \<Rightarrow> (Rejected e, [])
      | Inr req \<Rightarrow>
          ((case fetch H req of
              Pending \<Rightarrow> Pending
            | Rejected e \<Rightarrow> Rejected e
            | Fulfilled res \<Rightarrow>
                if ok res then json res else api_failure P ''Failed to get upload URL'' res),
           [Fetch req]))"
  unfolding getUploadUrl_def api_request_def api_failure_def Let_def
  by (simp add: promise_catch_def throw_def settle_def new_Error_def or_else_def
           split: sum.splits promise.splits)

lemma notifySaveComplete_eq:
  "notifySaveComplete P H cfg sp =
     (case api_request P cfg ''/api/supersplat/save-complete'' [(''storagePath'', sp)] of
        Inl e \<Rightarrow> (Rejected e, [])
      | Inr req \<Rightarrow>
          ((case fetch H req of
              Pending \<Rightarrow> Pending
            | Rejected e \<Rightarrow> Rejected e
            | Fulfilled res \<Rightarrow>
                if ok res then Fulfilled ()
                else api_failure P ''Save notification failed'' res),
           [Fetch req]))"
  unfolding notifySaveComplete_def api_request_def api_failure_def Let_def
  by (simp add: promise_catch_def throw_def settle_def new_Error_def or_else_def
           split: sum.splits promise.splits)

lemma uploadToGcs_eq:
  "uploadToGcs H u d =
     ((case fetch H (put_request u d) of
         Pending \<Rightarrow> Pending
       | Rejected e \<Rightarrow> Rejected e
       | Fulfilled res \<Rightarrow>
           if ok res then Fulfilled ()
           else Rejected (Exception ''Error''
                  (''Upload to GCS failed ('' @ decimal (status res) @ '')''))),
      [Fetch (put_request u d)])"
  unfolding uploadToGcs_def put_request_def Let_def
  by (simp add: throw_def settle_def split: promise.splits)

lemma api_failure_not_Fulfilled [simp]: "api_failure P what res \<noteq> Fulfilled x"
  by (simp add: api_failure_def split: promise.splits sum.splits)

lemma api_request_Inr:
  "api_request P cfg path pl = Inr req \<Longrightarrow>
     http_method req = ''POST'' \<and> url_ends_with path (url req) \<and>
     (\<exists>sid. get_prop P (Json cfg) ''splatId'' = Inr sid \<and>
            body req = JSON_stringify ((''splatId'', sid) # pl))"
  unfolding api_request_def
  by (auto split: sum.splits simp: suffix_def)

lemma api_request_upload_url:
  "api_request P cfg ''/api/supersplat/upload-url'' pl = Inr req \<Longrightarrow> is_upload_url_request req"
  by (auto dest!: api_request_Inr simp: is_upload_url_request_def)

lemma api_request_confirmation:
  "api_request P cfg ''/api/supersplat/save-complete'' pl = Inr req \<Longrightarrow>
     is_confirmation req \<and> (\<exists>sid. body req = JSON_stringify ((''splatId'', sid) # pl))"
  by (auto dest!: api_request_Inr simp: is_confirmation_def)

lemma is_upload_put [simp]: "is_upload (put_request u d)"
  by (simp add: is_upload_def put_request_def)

text \<open>No request belongs to two phases.\<close>

lemma suffix_last: "suffix xs s \<Longrightarrow> xs \<noteq> [] \<Longrightarrow> last s = last xs"
  by (auto simp: suffix_def)

lemma upload_url_not_upload: "is_upload_url_request req \<Longrightarrow> \<not> is_upload req"
  by (simp add: is_upload_url_request_def is_upload_def)

lemma confirmation_not_upload: "is_confirmation req \<Longrightarrow> \<not> is_upload req"
  by (simp add: is_confirmation_def is_upload_def)

lemma upload_url_not_confirmation: "is_upload_url_request req \<Longrightarrow> \<not> is_confirmation req"
proof
  assume a: "is_upload_url_request req" and b: "is_confirmation req"
  have "\<exists>s. url req = Json (JStr s) \<and> suffix ''/api/supersplat/upload-url'' s"
    using a unfolding is_upload_url_request_def
    by (cases "(''/api/supersplat/upload-url'', url req)" rule: url_ends_with.cases) auto
  then obtain s where s: "url req = Json (JStr s)" "suffix ''/api/supersplat/upload-url'' s"
    by blast
  from b s have "suffix ''/api/supersplat/save-complete'' s"
    by (simp add: is_confirmation_def)
  from suffix_last [OF this] suffix_last [OF s(2)] show False
    by simp
qed

section \<open>The stages of the try block\<close>

lemma save_try_stages:
  "save_try P H cfg = await (serializeSceneToPly H) (request_stage P H cfg)"
  unfolding save_try_def request_stage_def upload_stage_def confirm_stage_def Let_def ..

lemma confirm_stage_eq:
  "confirm_stage P H cfg sp =
     (case api_request P cfg ''/api/supersplat/save-complete'' [(''storagePath'', sp)] of
        Inl e \<Rightarrow> (Rejected e, [Console ''log'' ''[GigaScape] Upload complete'' []])
      | Inr req \<Rightarrow>
          (case fetch H req of
             Pending \<Rightarrow>
               (Pending, [Console ''log'' ''[GigaScape] Upload complete'' [], Fetch req])
           | Rejected e \<Rightarrow>
               (Rejected e, [Console ''log'' ''[GigaScape] Upload complete'' [], Fetch req])
           | Fulfilled res \<Rightarrow>
               if ok res
               then (invoke H ''showPopup'' success_popup,
                     [Console ''log'' ''[GigaScape] Upload complete'' [], Fetch req,
                      Console ''log'' ''[GigaScape] Save complete'' [],
                      Invoke ''showPopup'' success_popup])
               else (api_failure P ''Save notification failed'' res,
                     [Console ''log'' ''[GigaScape] Upload complete'' [], Fetch req])))"
  unfolding confirm_stage_def notifySaveComplete_eq
  by (simp add: call_def split: sum.splits promise.splits)

lemma upload_stage_eq:
  "upload_stage P H cfg d ticket =
     (case get_prop P (Json ticket) ''uploadUrl'' of Inl e \<Rightarrow> (Rejected e, []) | Inr u \<Rightarrow>
     (case get_prop P (Json ticket) ''storagePath'' of Inl e \<Rightarrow> (Rejected e, []) | Inr sp \<Rightarrow>
     (case ToString P sp of Inl e \<Rightarrow> (Rejected e, []) | Inr path \<Rightarrow>
     (case fetch H (put_request u d) of
        Pending \<Rightarrow>
          (Pending, [Console ''log'' (''[GigaScape] Got upload URL, path: '' @ path) [],
                     Fetch (put_request u d)])
      | Rejected e \<Rightarrow>
          (Rejected e, [Console ''log'' (''[GigaScape] Got upload URL, path: '' @ path) [],
                        Fetch (put_request u d)])
      | Fulfilled res \<Rightarrow>
          if ok res
          then (fst (confirm_stage P H cfg sp),
                Console ''log'' (''[GigaScape] Got upload URL, path: '' @ path) []
                  # Fetch (put_request u d) # snd (confirm_stage P H cfg sp))
          else (Rejected (Exception ''Error''
                  (''Upload to GCS failed ('' @ decimal (status res) @ '')'')),
                [Console ''log'' (''[GigaScape] Got upload URL, path: '' @ path) [],
                 Fetch (put_request u d)])))))"
  unfolding upload_stage_def uploadToGcs_eq
  by (simp split: sum.splits promise.splits)

lemma request_stage_eq:
  "request_stage P H cfg d =
     (let log = Console ''log'' (''[GigaScape] Serialized PLY: ''
                 @ toFixed P (real (byteLength d) / 1024 / 1024) 1 @ '' MB'') [] in
      case api_request P cfg ''/api/supersplat/upload-url''
             [(''fileSize'', Json (JNum (real (byteLength d))))] of
        Inl e \<Rightarrow> (Rejected e, [log])
      | Inr req \<Rightarrow>
          (case fetch H req of
             Pending \<Rightarrow> (Pending, [log, Fetch req])
           | Rejected e \<Rightarrow> (Rejected e, [log, Fetch req])
           | Fulfilled res \<Rightarrow>
               if ok res then
                 (case json res of
                    Pending \<Rightarrow> (Pending, [log, Fetch req])
                  | Rejected e \<Rightarrow> (Rejected e, [log, Fetch req])
                  | Fulfilled ticket \<Rightarrow>
                      (fst (upload_stage P H cfg d ticket),
                       log # Fetch req # snd (upload_stage P H cfg d ticket)))
               else (api_failure P ''Failed to get upload URL'' res, [log, Fetch req])))"
  unfolding request_stage_def getUploadUrl_eq Let_def
  by (simp add: api_failure_def split: sum.splits promise.splits)

lemma serializeSceneToPly_cases:
  "serializeSceneToPly H =
     (let splats = filter (\<lambda>s. 0 < numSplats s)
                     (filter visible (getElementsByType H splat)) in
      if splats = [] then (Rejected (Exception ''Error'' ''No splats to save''), [])
      else
        ((case serializePly H splats \<lparr>maxSHBands = 3\<rparr> of
            Pending \<Rightarrow> Pending
          | Rejected e \<Rightarrow> Rejected e
          | Fulfilled results \<Rightarrow>
              (case results ''output.ply'' of
                 None \<Rightarrow> Rejected (Exception ''Error'' ''PLY serialization produced no output'')
               | Some data \<Rightarrow> Fulfilled data)),
         [SerializePly splats \<lparr>maxSHBands = 3\<rparr>]))"
  unfolding serializeSceneToPly_def Let_def
  by (simp add: throw_def settle_def split: promise.splits option.splits)

lemma serializeSceneToPly_fetches [simp]: "fetches (snd (serializeSceneToPly H)) = []"
  by (simp add: serializeSceneToPly_cases Let_def)

lemma serializeSceneToPly_popups [simp]: "popups (snd (serializeSceneToPly H)) = []"
  by (simp add: serializeSceneToPly_cases Let_def)

lemma serializeSceneToPly_fires [simp]: "fires (snd (serializeSceneToPly H)) = []"
  by (simp add: serializeSceneToPly_cases Let_def)

section \<open>How far a save gets\<close>

lemma confirm_stage_run:
  assumes "is_upload_url_request r1" "is_upload r2" "fetch H r1 = Fulfilled res1" "ok res1"
    "json res1 = Fulfilled ticket" "fetch H r2 = Fulfilled res2" "ok res2"
    "get_prop P (Json ticket) ''storagePath'' = Inr sp"
    "fetches t = [r1, r2]" "popups t = []"
  shows "save_run P H (fst (confirm_stage P H cfg sp), t @ snd (confirm_stage P H cfg sp))"
proof (cases "api_request P cfg ''/api/supersplat/save-complete'' [(''storagePath'', sp)]")
  case (Inl e)
  then show ?thesis
    using assms by (auto simp: confirm_stage_eq intro!: save_run.at_upload)
next
  case (Inr r3)
  from api_request_confirmation [OF Inr] obtain sid where
    r3: "is_confirmation r3" "body r3 = JSON_stringify [(''splatId'', sid), (''storagePath'', sp)]"
    by auto
  show ?thesis
  proof (cases "succeeds H r3")
    case True
    then obtain res where "fetch H r3 = Fulfilled res" "ok res"
      by (auto simp: succeeds_def split: promise.splits)
    then show ?thesis
      using assms r3 True Inr
      by (auto simp: confirm_stage_eq intro!: save_run.at_confirmed)
  next
    case False
    then show ?thesis
      using assms r3 Inr
      by (auto simp: confirm_stage_eq succeeds_def split: promise.splits
               intro!: save_run.at_confirm_failed)
  qed
qed

lemma upload_stage_run:
  assumes "is_upload_url_request r1" "fetch H r1 = Fulfilled res1" "ok res1"
    "json res1 = Fulfilled ticket" "fetches t = [r1]" "popups t = []"
  shows "save_run P H (fst (upload_stage P H cfg d ticket), t @ snd (upload_stage P H cfg d ticket))"
proof (cases "get_prop P (Json ticket) ''uploadUrl''")
  case (Inl e)
  then show ?thesis
    using assms by (auto simp: upload_stage_eq intro!: save_run.at_request)
next
  case u: (Inr u)
  show ?thesis
  proof (cases "get_prop P (Json ticket) ''storagePath''")
    case (Inl e)
    then show ?thesis
      using assms u by (auto simp: upload_stage_eq intro!: save_run.at_request)
  next
    case sp: (Inr sp)
    show ?thesis
    proof (cases "ToString P sp")
      case (Inl e)
      then show ?thesis
        using assms u sp by (auto simp: upload_stage_eq intro!: save_run.at_request)
    next
      case path: (Inr path)
      let ?r2 = "put_request u d"
      let ?t = "t @ [Console ''log'' (''[GigaScape] Got upload URL, path: '' @ path) [], Fetch ?r2]"
      have F: "fetches ?t = [r1, ?r2]" "popups ?t = []"
        using assms by simp_all
      show ?thesis
      proof (cases "succeeds H ?r2")
        case True
        then obtain res2 where res2: "fetch H ?r2 = Fulfilled res2" "ok res2"
          by (auto simp: succeeds_def split: promise.splits)
        have "save_run P H (fst (confirm_stage P H cfg sp), ?t @ snd (confirm_stage P H cfg sp))"
          using assms(1) is_upload_put assms(2,3,4) res2 sp F
          by (rule confirm_stage_run)
        then show ?thesis
          using u sp path res2 by (simp add: upload_stage_eq)
      next
        case False
        have "save_run P H (fst (upload_stage P H cfg d ticket), ?t)"
          using False assms F u sp path
          by (intro save_run.at_upload [where ?r1.0 = r1 and ?r2.0 = "?r2"
                      and ?res1.0 = res1 and ticket = ticket])
             (auto simp: upload_stage_eq succeeds_def split: promise.splits)
        moreover have "snd (upload_stage P H cfg d ticket) =
            [Console ''log'' (''[GigaScape] Got upload URL, path: '' @ path) [], Fetch ?r2]"
          using False u sp path
          by (auto simp: upload_stage_eq succeeds_def split: promise.splits)
        ultimately show ?thesis by simp
      qed
    qed
  qed
qed

lemma request_stage_run:
  assumes "fetches t = []" "popups t = []"
  shows "save_run P H (fst (request_stage P H cfg d), t @ snd (request_stage P H cfg d))"
proof (cases "api_request P cfg ''/api/supersplat/upload-url''
                [(''fileSize'', Json (JNum (real (byteLength d))))]")
  case (Inl e)
  then show ?thesis
    using assms by (auto simp: request_stage_eq Let_def intro!: save_run.at_export)
next
  case (Inr r1)
  let ?log = "Console ''log'' (''[GigaScape] Serialized PLY: ''
                 @ toFixed P (real (byteLength d) / 1024 / 1024) 1 @ '' MB'') []"
  let ?t = "t @ [?log, Fetch r1]"
  have r1: "is_upload_url_request r1" using Inr by (rule api_request_upload_url)
  have F: "fetches ?t = [r1]" "popups ?t = []" using assms by simp_all
  show ?thesis
  proof (cases "\<exists>res ticket. fetch H r1 = Fulfilled res \<and> ok res \<and> json res = Fulfilled ticket")
    case True
    then obtain res ticket where
      res: "fetch H r1 = Fulfilled res" "ok res" "json res = Fulfilled ticket"
      by blast
    have "save_run P H (fst (upload_stage P H cfg d ticket), ?t @ snd (upload_stage P H cfg d ticket))"
      using r1 res F by (rule upload_stage_run)
    then show ?thesis
      using Inr res by (simp add: request_stage_eq Let_def)
  next
    case False
    have "save_run P H (fst (request_stage P H cfg d), ?t)"
      using False r1 F Inr
      by (intro save_run.at_request [where ?r1.0 = r1])
         (auto simp: request_stage_eq Let_def split: promise.splits)
    moreover have "snd (request_stage P H cfg d) = [?log, Fetch r1]"
      using False Inr
      by (auto simp: request_stage_eq Let_def split: promise.splits)
    ultimately show ?thesis by simp
  qed
qed

lemma save_try_run: "save_run P H (save_try P H cfg)"
proof (cases "serializeSceneToPly H")
  case (Pair r0 t0)
  have f0: "fetches t0 = []" "popups t0 = []"
    using serializeSceneToPly_fetches [of H] serializeSceneToPly_popups [of H] Pair by simp_all
  show ?thesis
  proof (cases r0)
    case (Fulfilled d)
    then show ?thesis
      using request_stage_run [OF f0, of P H cfg d] Pair
      by (simp add: save_try_stages)
  next
    case (Rejected e)
    then show ?thesis
      using f0 Pair by (simp add: save_try_stages save_run.at_export)
  next
    case Pending
    then show ?thesis
      using f0 Pair by (simp add: save_try_stages save_run.at_export)
  qed
qed

text \<open>The try block fires no event on the bus.\<close>

lemma confirm_stage_fires [simp]: "fires (snd (confirm_stage P H cfg sp)) = []"
  by (simp add: confirm_stage_eq split: sum.splits promise.splits)

lemma upload_stage_fires [simp]: "fires (snd (upload_stage P H cfg d ticket)) = []"
  by (simp add: upload_stage_eq split: sum.splits promise.splits)

lemma request_stage_fires [simp]: "fires (snd (request_stage P H cfg d)) = []"
  by (simp add: request_stage_eq Let_def split: sum.splits promise.splits)

lemma save_try_fires [simp]: "fires (snd (save_try P H cfg)) = []"
proof (cases "serializeSceneToPly H")
  case (Pair r0 t0)
  then have "fires t0 = []"
    using serializeSceneToPly_fires [of H] by simp
  then show ?thesis
    using Pair by (cases r0) (simp_all add: save_try_stages)
qed

section \<open>The handler around the try block\<close>

lemma save_catch_eq:
  "save_catch P H e =
     (case get_prop P e ''message'' of
        Inl e' \<Rightarrow> (Rejected e', [Console ''error'' ''[GigaScape] Save failed:'' [e]])
      | Inr msg \<Rightarrow>
          (invoke H ''showPopup''
             \<lparr>type = ''error'', header = ''Save Failed'',
              message = or_else msg (Json (JStr ''Unknown error while saving to GigaScape''))\<rparr>,
           [Console ''error'' ''[GigaScape] Save failed:'' [e],
            Invoke ''showPopup''
              \<lparr>type = ''error'', header = ''Save Failed'',
               message = or_else msg (Json (JStr ''Unknown error while saving to GigaScape''))\<rparr>]))"
  unfolding save_catch_def Let_def
  by (simp add: call_def split: sum.splits)

lemma save_catch_Error:
  "msg \<noteq> [] \<Longrightarrow>
   save_catch P H (Exception name msg) =
     (invoke H ''showPopup'' (error_popup msg),
      [Console ''error'' ''[GigaScape] Save failed:'' [Exception name msg],
       Invoke ''showPopup'' (error_popup msg)])"
  by (simp add: save_catch_eq or_else_def)

lemma save_catch_fires [simp]: "fires (snd (save_catch P H e)) = []"
  by (simp add: save_catch_eq split: sum.splits)

lemma save_catch_fetches [simp]: "fetches (snd (save_catch P H e)) = []"
  by (simp add: save_catch_eq split: sum.splits)

lemma save_catch_serializer_calls [simp]: "serializer_calls (snd (save_catch P H e)) = []"
  by (simp add: save_catch_eq split: sum.splits)

lemma save_handler_eq:
  "save_handler P H cfg =
     (case save_try P H cfg of
        (Pending, t) \<Rightarrow> (Pending, Fire ''startSpinner'' # t)
      | (Fulfilled x, t) \<Rightarrow> (Fulfilled x, Fire ''startSpinner'' # t @ [Fire ''stopSpinner''])
      | (Rejected e, t) \<Rightarrow>
          (case save_catch P H e of
             (Pending, t') \<Rightarrow> (Pending, Fire ''startSpinner'' # t @ t')
           | (Fulfilled x, t') \<Rightarrow>
               (Fulfilled x, Fire ''startSpinner'' # t @ t' @ [Fire ''stopSpinner''])
           | (Rejected e', t') \<Rightarrow>
               (Rejected e', Fire ''startSpinner'' # t @ t' @ [Fire ''stopSpinner''])))"
  unfolding save_handler_def try_catch_def try_finally_def
  by (simp split: prod.splits promise.splits)

lemma save_handler_fetches: "fetches (snd (save_handler P H cfg)) = fetches (snd (save_try P H cfg))"
proof (cases "save_try P H cfg")
  case (Pair r t)
  show ?thesis
  proof (cases r)
    case (Rejected e)
    then show ?thesis
      using Pair save_catch_fetches [of P H e]
      by (cases "save_catch P H e"; cases "fst (save_catch P H e)")
         (simp_all add: save_handler_eq)
  qed (simp_all add: save_handler_eq Pair)
qed

lemma save_handler_popups_Rejected:
  "save_try P H cfg = (Rejected e, t) \<Longrightarrow>
   popups (snd (save_handler P H cfg)) = popups t @ popups (snd (save_catch P H e))"
  by (cases "save_catch P H e"; cases "fst (save_catch P H e)")
     (simp_all add: save_handler_eq)

lemma save_handler_popups_other:
  "save_try P H cfg = (r, t) \<Longrightarrow> \<forall>e. r \<noteq> Rejected e \<Longrightarrow>
   popups (snd (save_handler P H cfg)) = popups t"
  by (cases r) (simp_all add: save_handler_eq)

section \<open>The examples, run\<close>

lemmas sample_defs =
  browser_def sample_host_def sample_scene_def sample_ply_def scripted_def sample_config_def
  ticket_response_def empty_ok_response_def token_expired_response_def
  server_error_response_def quota_response_def bad_gateway_response_def
  sample_upload_url_request_def sample_upload_def sample_confirmation_def

lemmas module_defs =
  save_handler_def save_try_def save_catch_def serializeSceneToPly_def
  getUploadUrl_def uploadToGcs_def notifySaveComplete_def try_catch_def try_finally_def
  promise_catch_def throw_def settle_def call_def emit_def sync_def new_Error_def or_else_def
  Let_def decimal.simps

lemma run_ok:
  "save_handler browser host_ok sample_config =
     (Fulfilled (),
      [Fire ''startSpinner'',
       SerializePly [\<lparr>visible = True, numSplats = 3\<rparr>] \<lparr>maxSHBands = 3\<rparr>,
       Console ''log'' ''[GigaScape] Serialized PLY: 0.0 MB'' [],
       Fetch sample_upload_url_request,
       Console ''log'' ''[GigaScape] Got upload URL, path: splats/splat-42/edited.ply'' [],
       Fetch sample_upload,
       Console ''log'' ''[GigaScape] Upload complete'' [],
       Fetch sample_confirmation,
       Console ''log'' ''[GigaScape] Save complete'' [],
       Invoke ''showPopup'' success_popup,
       Fire ''stopSpinner''])"
  by (simp add: host_ok_def sample_defs module_defs)

lemma run_token_expired:
  "save_handler browser host_token_expired sample_config =
     (Fulfilled (),
      [Fire ''startSpinner'',
       SerializePly [\<lparr>visible = True, numSplats = 3\<rparr>] \<lparr>maxSHBands = 3\<rparr>,
       Console ''log'' ''[GigaScape] Serialized PLY: 0.0 MB'' [],
       Fetch sample_upload_url_request,
       Console ''error'' ''[GigaScape] Save failed:'' [Exception ''Error'' ''token expired''],
       Invoke ''showPopup'' (error_popup ''token expired''),
       Fire ''stopSpinner''])"
  by (simp add: host_token_expired_def sample_defs module_defs)

lemma run_upload_fails:
  "save_handler browser host_upload_fails sample_config =
     (Fulfilled (),
      [Fire ''startSpinner'',
       SerializePly [\<lparr>visible = True, numSplats = 3\<rparr>] \<lparr>maxSHBands = 3\<rparr>,
       Console ''log'' ''[GigaScape] Serialized PLY: 0.0 MB'' [],
       Fetch sample_upload_url_request,
       Console ''log'' ''[GigaScape] Got upload URL, path: splats/splat-42/edited.ply'' [],
       Fetch sample_upload,
       Console ''error'' ''[GigaScape] Save failed:''
         [Exception ''Error'' ''Upload to GCS failed (500)''],
       Invoke ''showPopup'' (error_popup ''Upload to GCS failed (500)''),
       Fire ''stopSpinner''])"
  by (simp add: host_upload_fails_def sample_defs module_defs)

lemma run_popup_fails:
  "save_handler browser host_popup_fails sample_config =
     (Fulfilled (),
      [Fire ''startSpinner'',
       SerializePly [\<lparr>visible = True, numSplats = 3\<rparr>] \<lparr>maxSHBands = 3\<rparr>,
       Console ''log'' ''[GigaScape] Serialized PLY: 0.0 MB'' [],
       Fetch sample_upload_url_request,
       Console ''log'' ''[GigaScape] Got upload URL, path: splats/splat-42/edited.ply'' [],
       Fetch sample_upload,
       Console ''log'' ''[GigaScape] Upload complete'' [],
       Fetch sample_confirmation,
       Console ''log'' ''[GigaScape] Save complete'' [],
       Invoke ''showPopup'' success_popup,
       Console ''error'' ''[GigaScape] Save failed:'' [Exception ''Error'' ''popup closed''],
       Invoke ''showPopup'' (error_popup ''popup closed''),
       Fire ''stopSpinner''])"
  by (simp add: host_popup_fails_def sample_defs module_defs)


lemma run_empty_scene:
  "save_handler browser host_empty_scene sample_config =
     (Fulfilled (),
      [Fire ''startSpinner'',
       Console ''error'' ''[GigaScape] Save failed:'' [Exception ''Error'' ''No splats to save''],
       Invoke ''showPopup'' (error_popup ''No splats to save''),
       Fire ''stopSpinner''])"
  by (simp add: host_empty_scene_def sample_defs module_defs)

lemma sample_fetches:
  "fetch host_ok sample_upload_url_request = Fulfilled ticket_response"
  "fetch host_ok sample_upload = Fulfilled empty_ok_response"
  "fetch host_ok sample_confirmation = Fulfilled empty_ok_response"
  "fetch host_token_expired sample_upload_url_request = Fulfilled token_expired_response"
  "fetch host_upload_fails sample_upload_url_request = Fulfilled ticket_response"
  "fetch host_upload_fails sample_upload = Fulfilled server_error_response"
  "fetch host_popup_fails sample_upload_url_request = Fulfilled ticket_response"
  "fetch host_popup_fails sample_upload = Fulfilled empty_ok_response"
  "fetch host_popup_fails sample_confirmation = Fulfilled empty_ok_response"
  by (simp_all add: host_ok_def host_token_expired_def host_upload_fails_def
        host_popup_fails_def sample_host_def scripted_def
        sample_upload_url_request_def sample_upload_def sample_confirmation_def)

lemma sample_phases:
  "is_upload_url_request sample_upload_url_request"
  "is_upload sample_upload"
  "is_confirmation sample_confirmation"
  by (simp_all add: is_upload_url_request_def is_upload_def is_confirmation_def
        sample_upload_url_request_def sample_upload_def sample_confirmation_def
        suffix_to_prefix)

section \<open>The claims\<close>

subsection \<open>C1: a failed phase stops the save\<close>

text \<open>
  C1. In every run of the save handler, when a request that was sent is answered with a
  non-success status: if it is the request for an upload URL (phase 1), it is the only
  request of the run, so neither the upload (a \<^verbatim>\<open>PUT\<close>) nor the confirmation is sent;
  if it is the upload (phase 2), the run's requests are the phase-1 request and this
  one, so the confirmation is not sent.
\<close>

theorem later_phases_skipped_after_failure:
  assumes "Fetch req \<in> set (snd (save_handler P H gsConfig))"
    and "fetch H req = Fulfilled res"
    and "\<not> ok res"
  shows "(is_upload_url_request req \<longrightarrow>
            fetches (snd (save_handler P H gsConfig)) = [req] \<and>
            (\<forall>req'. Fetch req' \<in> set (snd (save_handler P H gsConfig)) \<longrightarrow>
               \<not> is_upload req' \<and> \<not> is_confirmation req')) \<and>
         (is_upload req \<longrightarrow>
            (\<exists>req1. is_upload_url_request req1 \<and>
               fetches (snd (save_handler P H gsConfig)) = [req1, req]) \<and>
            (\<forall>req'. Fetch req' \<in> set (snd (save_handler P H gsConfig)) \<longrightarrow>
               \<not> is_confirmation req'))"
proof -
  let ?F = "fetches (snd (save_handler P H gsConfig))"
  have in_F: "req \<in> set ?F"
    using assms(1) by (simp add: set_fetches)
  have mem: "\<And>r. Fetch r \<in> set (snd (save_handler P H gsConfig)) \<longleftrightarrow> r \<in> set ?F"
    by (simp add: set_fetches)
  obtain r t where rt: "save_try P H gsConfig = (r, t)"
    by fastforce
  have F: "?F = fetches t"
    by (simp add: save_handler_fetches rt)
  from save_try_run [of P H gsConfig] have "save_run P H (r, t)"
    by (simp add: rt)
  then show ?thesis
  proof cases
    case at_export
    then show ?thesis using in_F F by simp
  next
    case (at_request r1)
    then show ?thesis
      using in_F F mem upload_url_not_upload upload_url_not_confirmation by auto
  next
    case (at_upload r1 r2 res1 ticket)
    then show ?thesis
      using in_F F mem assms(2,3) upload_url_not_upload upload_url_not_confirmation
        confirmation_not_upload
      by auto
  next
    case (at_confirm_failed r1 r2 r3 res1 ticket res2 sp sid)
    then show ?thesis
      using in_F F mem assms(2,3) upload_url_not_upload upload_url_not_confirmation
        confirmation_not_upload
      by auto
  next
    case (at_confirmed r1 r2 r3 res1 ticket res2 sp sid)
    then show ?thesis
      using in_F F mem assms(2,3) upload_url_not_upload upload_url_not_confirmation
        confirmation_not_upload
      by auto
  qed
qed

text \<open>
  A token that expired (the upload URL is refused with 403) and a storage that answers
  the upload with 500: one request and two requests.
\<close>

theorem later_phases_skipped_after_failure_witness:
  "Fetch sample_upload_url_request \<in> set (snd (save_handler browser host_token_expired sample_config)) \<and>
   fetch host_token_expired sample_upload_url_request = Fulfilled token_expired_response \<and>
   \<not> ok token_expired_response \<and>
   is_upload_url_request sample_upload_url_request \<and>
   fetches (snd (save_handler browser host_token_expired sample_config)) = [sample_upload_url_request] \<and>
   Fetch sample_upload \<in> set (snd (save_handler browser host_upload_fails sample_config)) \<and>
   fetch host_upload_fails sample_upload = Fulfilled server_error_response \<and>
   \<not> ok server_error_response \<and>
   is_upload sample_upload \<and>
   (\<exists>req1. is_upload_url_request req1 \<and>
      fetches (snd (save_handler browser host_upload_fails sample_config)) = [req1, sample_upload])"
proof -
  have a: "Fetch sample_upload_url_request \<in> set (snd (save_handler browser host_token_expired sample_config))"
    by (simp add: run_token_expired)
  have b: "\<not> ok token_expired_response" "\<not> ok server_error_response"
    by (simp_all add: token_expired_response_def server_error_response_def)
  have c: "Fetch sample_upload \<in> set (snd (save_handler browser host_upload_fails sample_config))"
    by (simp add: run_upload_fails)
  from later_phases_skipped_after_failure [OF a sample_fetches(4) b(1)]
    later_phases_skipped_after_failure [OF c sample_fetches(6) b(2)]
  show ?thesis
    using a b c sample_fetches(4,6) sample_phases(1,2) by blast
qed

subsection \<open>C2: an empty scene\<close>

text \<open>
  C2. When none of the scene's splat elements is visible with at least one point, the export
  raises the error \<^verbatim>\<open>No splats to save\<close> with an empty trace, that is before the
  serializer is called; the run of the handler then calls neither the serializer nor
  \<^verbatim>\<open>fetch\<close>, and the one popup it shows is the error popup with that message.
\<close>

theorem empty_scene_fails_before_any_call:
  assumes "\<forall>s \<in> set (getElementsByType H splat). \<not> (visible s \<and> 0 < numSplats s)"
  shows "serializeSceneToPly H = (Rejected (Exception ''Error'' ''No splats to save''), []) \<and>
         fetches (snd (save_handler P H gsConfig)) = [] \<and>
         serializer_calls (snd (save_handler P H gsConfig)) = [] \<and>
         popups (snd (save_handler P H gsConfig)) = [error_popup ''No splats to save'']"
proof -
  have "filter (\<lambda>s. 0 < numSplats s) (filter visible (getElementsByType H splat)) = []"
    using assms by (auto simp: filter_empty_conv)
  then have export: "serializeSceneToPly H = (Rejected (Exception ''Error'' ''No splats to save''), [])"
    by (simp add: serializeSceneToPly_cases)
  then have body: "save_try P H gsConfig = (Rejected (Exception ''Error'' ''No splats to save''), [])"
    by (simp add: save_try_stages)
  have "fetches (snd (save_handler P H gsConfig)) = []"
    by (simp add: save_handler_fetches body)
  moreover have "serializer_calls (snd (save_handler P H gsConfig)) = []"
    by (cases "invoke H ''showPopup'' (error_popup ''No splats to save'')")
       (simp_all add: save_handler_eq body save_catch_Error)
  moreover have "popups (snd (save_handler P H gsConfig)) = [error_popup ''No splats to save'']"
    by (simp add: save_handler_popups_Rejected [OF body] save_catch_Error)
  ultimately show ?thesis
    using export by simp
qed

text \<open>A scene with a hidden splat and an empty splat.\<close>

theorem empty_scene_fails_before_any_call_witness:
  "filter (\<lambda>s. visible s \<and> 0 < numSplats s) (getElementsByType host_empty_scene splat) = [] \<and>
   serializeSceneToPly host_empty_scene = (Rejected (Exception ''Error'' ''No splats to save''), []) \<and>
   fetches (snd (save_handler browser host_empty_scene sample_config)) = [] \<and>
   serializer_calls (snd (save_handler browser host_empty_scene sample_config)) = [] \<and>
   popups (snd (save_handler browser host_empty_scene sample_config)) = [error_popup ''No splats to save'']"
proof -
  have h: "\<forall>s \<in> set (getElementsByType host_empty_scene splat).
             \<not> (visible s \<and> 0 < numSplats s)"
    by (simp add: host_empty_scene_def sample_host_def)
  have "filter (\<lambda>s. visible s \<and> 0 < numSplats s)
          (getElementsByType host_empty_scene splat) = []"
    by (simp add: host_empty_scene_def sample_host_def)
  with empty_scene_fails_before_any_call [OF h, of browser sample_config] show ?thesis
    by simp
qed

subsection \<open>C3: the busy indicator\<close>


lemma spinner_left_on_while_pending:
  assumes "fst (save_handler P H gsConfig) = Pending"
  shows "fires (snd (save_handler P H gsConfig)) = [''startSpinner'']"
proof (cases "save_try P H gsConfig")
  case (Pair r t)
  have t: "fires t = []"
    using save_try_fires [of P H gsConfig] Pair by simp
  show ?thesis
  proof (cases r)
    case (Fulfilled x)
    then show ?thesis using Pair assms by (simp add: save_handler_eq)
  next
    case Pending
    then show ?thesis using Pair t by (simp add: save_handler_eq)
  next
    case (Rejected e)
    obtain r' t' where c: "save_catch P H e = (r', t')"
      by fastforce
    have t': "fires t' = []"
      using save_catch_fires [of P H e] c by simp
    show ?thesis
      using Pair Rejected c t t' assms
      by (cases r') (simp_all add: save_handler_eq)
  qed
qed










subsection \<open>C4: the error of a failed phase\<close>

text \<open>
  What the common failure of phases 1 and 3 raises, by the kind of the response body.
\<close>

lemma api_failure_Error_string:
  "classify P res = Error_string s \<Longrightarrow> api_failure P what res = Rejected (Exception ''Error'' s)"
  unfolding classify_def api_failure_def
  by (auto simp: new_Error_def or_else_def split: promise.splits sum.splits js.splits json.splits if_splits)

lemma api_failure_No_error:
  "classify P res = No_error \<Longrightarrow>
   api_failure P what res = Rejected (Exception ''Error'' (templated what res))"
  unfolding classify_def api_failure_def templated_def
  by (auto simp: new_Error_def or_else_def split: promise.splits sum.splits js.splits json.splits if_splits)

lemma api_failure_Unparseable:
  "classify P res = Unparseable \<Longrightarrow>
   api_failure P what res = Rejected (Exception ''Error'' (''HTTP '' @ decimal (status res)))"
  unfolding classify_def api_failure_def
  by (auto split: promise.splits sum.splits js.splits json.splits if_splits)

text \<open>
  C4, as amended. When the response of a phase has a non-success status, the error
  raised is:
  \<^item> in phases 1 and 3, the string \<^verbatim>\<open>error\<close> of the JSON body when it is a non-empty
    string; the phase's template with the status code
    (\<^verbatim>\<open>Failed to get upload URL (s)\<close>, \<^verbatim>\<open>Save notification failed (s)\<close>) when the body is
    JSON other than \<^verbatim>\<open>null\<close> whose \<^verbatim>\<open>error\<close> is missing or falsy; and \<^verbatim>\<open>HTTP s\<close> when the
    body cannot be parsed;
  \<^item> in phase 2, always the template \<^verbatim>\<open>Upload to GCS failed (s)\<close>: the body is not read.
\<close>

theorem error_normalization:
  assumes "fetch H req = Fulfilled res" and "\<not> ok res"
  shows "(Fetch req \<in> set (snd (getUploadUrl P H gsConfig fileSize)) \<longrightarrow>
            (\<forall>s. classify P res = Error_string s \<longrightarrow>
                  raises (getUploadUrl P H gsConfig fileSize) s) \<and>
            (classify P res = No_error \<longrightarrow>
               raises (getUploadUrl P H gsConfig fileSize)
                 (templated ''Failed to get upload URL'' res)) \<and>
            (classify P res = Unparseable \<longrightarrow>
               raises (getUploadUrl P H gsConfig fileSize) (''HTTP '' @ decimal (status res)))) \<and>
         (Fetch req \<in> set (snd (notifySaveComplete P H gsConfig storagePath)) \<longrightarrow>
            (\<forall>s. classify P res = Error_string s \<longrightarrow>
                  raises (notifySaveComplete P H gsConfig storagePath) s) \<and>
            (classify P res = No_error \<longrightarrow>
               raises (notifySaveComplete P H gsConfig storagePath)
                 (templated ''Save notification failed'' res)) \<and>
            (classify P res = Unparseable \<longrightarrow>
               raises (notifySaveComplete P H gsConfig storagePath)
                 (''HTTP '' @ decimal (status res)))) \<and>
         (Fetch req \<in> set (snd (uploadToGcs H uploadUrl data)) \<longrightarrow>
            raises (uploadToGcs H uploadUrl data) (templated ''Upload to GCS failed'' res))"
proof (intro conjI impI allI)
  assume "Fetch req \<in> set (snd (getUploadUrl P H gsConfig fileSize))"
  then have g: "fst (getUploadUrl P H gsConfig fileSize) =
                  api_failure P ''Failed to get upload URL'' res"
    using assms by (auto simp: getUploadUrl_eq split: sum.splits)
  show "classify P res = Error_string s \<Longrightarrow> raises (getUploadUrl P H gsConfig fileSize) s" for s
    by (simp add: raises_def g api_failure_Error_string)
  show "classify P res = No_error \<Longrightarrow>
        raises (getUploadUrl P H gsConfig fileSize) (templated ''Failed to get upload URL'' res)"
    by (simp add: raises_def g api_failure_No_error)
  show "classify P res = Unparseable \<Longrightarrow>
        raises (getUploadUrl P H gsConfig fileSize) (''HTTP '' @ decimal (status res))"
    by (simp add: raises_def g api_failure_Unparseable)
next
  assume "Fetch req \<in> set (snd (notifySaveComplete P H gsConfig storagePath))"
  then have n: "fst (notifySaveComplete P H gsConfig storagePath) =
                  api_failure P ''Save notification failed'' res"
    using assms by (auto simp: notifySaveComplete_eq split: sum.splits)
  show "classify P res = Error_string s \<Longrightarrow>
        raises (notifySaveComplete P H gsConfig storagePath) s" for s
    by (simp add: raises_def n api_failure_Error_string)
  show "classify P res = No_error \<Longrightarrow>
        raises (notifySaveComplete P H gsConfig storagePath)
          (templated ''Save notification failed'' res)"
    by (simp add: raises_def n api_failure_No_error)
  show "classify P res = Unparseable \<Longrightarrow>
        raises (notifySaveComplete P H gsConfig storagePath) (''HTTP '' @ decimal (status res))"
    by (simp add: raises_def n api_failure_Unparseable)
next
  assume "Fetch req \<in> set (snd (uploadToGcs H uploadUrl data))"
  then show "raises (uploadToGcs H uploadUrl data) (templated ''Upload to GCS failed'' res)"
    using assms by (simp add: uploadToGcs_eq raises_def templated_def)
qed

lemma sample_requests_sent:
  "snd (getUploadUrl browser H sample_config 3) = [Fetch sample_upload_url_request]"
  "snd (notifySaveComplete browser H sample_config (Json (JStr ''splats/splat-42/edited.ply'')))
     = [Fetch sample_confirmation]"
  "snd (uploadToGcs H (Json (JStr ''https://storage.example/signed'')) sample_ply)
     = [Fetch sample_upload]"
  by (simp_all add: getUploadUrl_eq notifySaveComplete_eq uploadToGcs_eq api_request_def
        put_request_def browser_def sample_config_def sample_ply_def
        sample_upload_url_request_def sample_confirmation_def sample_upload_def)

lemma sample_fetches_failed:
  "fetch host_server_error sample_upload_url_request = Fulfilled server_error_response"
  "fetch host_quota sample_upload = Fulfilled quota_response"
  "fetch host_confirm_fails sample_confirmation = Fulfilled bad_gateway_response"
  by (simp_all add: host_server_error_def host_quota_def host_confirm_fails_def
        sample_host_def scripted_def
        sample_upload_url_request_def sample_upload_def sample_confirmation_def)

lemma sample_kinds:
  "classify browser token_expired_response = Error_string ''token expired''"
  "classify browser server_error_response = Unparseable"
  "classify browser bad_gateway_response = No_error"
  "classify browser quota_response = Error_string ''quota exceeded''"
  by (simp_all add: classify_def token_expired_response_def server_error_response_def
        bad_gateway_response_def quota_response_def)

lemma sample_statuses:
  "\<not> ok token_expired_response" "\<not> ok server_error_response"
  "\<not> ok bad_gateway_response" "\<not> ok quota_response"
  "decimal (status token_expired_response) = ''403''"
  "decimal (status server_error_response) = ''500''"
  "decimal (status bad_gateway_response) = ''502''"
  "decimal (status quota_response) = ''403''"
  by (simp_all add: token_expired_response_def server_error_response_def
        bad_gateway_response_def quota_response_def decimal.simps)

text \<open>
  Scenario B of the specification (403 with \<^verbatim>\<open>{"error":"token expired"}\<close> on phase 1, shown
  as \<^verbatim>\<open>token expired\<close>), a body that cannot be parsed on phase 1, an empty JSON object on
  phase 3, and an error string on phase 2.
\<close>

theorem error_normalization_witness:
  "raises (getUploadUrl browser host_token_expired sample_config 3) ''token expired'' \<and>
   popups (snd (save_handler browser host_token_expired sample_config)) = [error_popup ''token expired''] \<and>
   raises (getUploadUrl browser host_server_error sample_config 3) ''HTTP 500'' \<and>
   raises (notifySaveComplete browser host_confirm_fails sample_config
             (Json (JStr ''splats/splat-42/edited.ply''))) ''Save notification failed (502)'' \<and>
   raises (uploadToGcs host_quota (Json (JStr ''https://storage.example/signed'')) sample_ply)
     ''Upload to GCS failed (403)''"
proof -
  note sent = sample_requests_sent
  have "raises (getUploadUrl browser host_token_expired sample_config 3) ''token expired''"
    using error_normalization [OF sample_fetches(4) sample_statuses(1),
        of browser sample_config 3]
    by (simp add: sent sample_kinds)
  moreover have "raises (getUploadUrl browser host_server_error sample_config 3) ''HTTP 500''"
    using error_normalization [OF sample_fetches_failed(1) sample_statuses(2),
        of browser sample_config 3]
    by (simp add: sent sample_kinds sample_statuses)
  moreover have "raises (notifySaveComplete browser host_confirm_fails sample_config
             (Json (JStr ''splats/splat-42/edited.ply''))) ''Save notification failed (502)''"
    using error_normalization [OF sample_fetches_failed(3) sample_statuses(3),
        of browser sample_config _ "Json (JStr ''splats/splat-42/edited.ply'')"]
    by (simp add: sent sample_kinds sample_statuses templated_def)
  moreover have "raises (uploadToGcs host_quota (Json (JStr ''https://storage.example/signed''))
                   sample_ply) ''Upload to GCS failed (403)''"
    using error_normalization [OF sample_fetches_failed(2) sample_statuses(4),
        of _ _ _ _ "Json (JStr ''https://storage.example/signed'')" sample_ply]
    by (simp add: sent sample_statuses templated_def)
  ultimately show ?thesis
    by (simp add: run_token_expired)
qed

text \<open>
  The claim as the specification states it, for all three phases: the server's error
  string when the body has one, else the phase's template. It fails on phase 1 when the
  body cannot be parsed (the message is \<^verbatim>\<open>HTTP 500\<close>, not the template), and on phase 2
  when the body has an error string (the message is the template, not the string).
\<close>

theorem error_normalization_counterexample:
  "\<not> ok server_error_response \<and>
   spec_message browser ''Failed to get upload URL'' server_error_response
     = ''Failed to get upload URL (500)'' \<and>
   fst (getUploadUrl browser host_server_error sample_config 3)
     = Rejected (Exception ''Error'' ''HTTP 500'') \<and>
   \<not> raises (getUploadUrl browser host_server_error sample_config 3)
       (spec_message browser ''Failed to get upload URL'' server_error_response) \<and>
   \<not> ok quota_response \<and>
   spec_message browser ''Upload to GCS failed'' quota_response = ''quota exceeded'' \<and>
   fst (uploadToGcs host_quota (Json (JStr ''https://storage.example/signed'')) sample_ply)
     = Rejected (Exception ''Error'' ''Upload to GCS failed (403)'') \<and>
   \<not> raises (uploadToGcs host_quota (Json (JStr ''https://storage.example/signed'')) sample_ply)
       (spec_message browser ''Upload to GCS failed'' quota_response)"
proof -
  have a: "fst (getUploadUrl browser host_server_error sample_config 3)
             = Rejected (Exception ''Error'' ''HTTP 500'')"
    by (simp add: getUploadUrl_def host_server_error_def sample_defs module_defs)
  have b: "fst (uploadToGcs host_quota (Json (JStr ''https://storage.example/signed'')) sample_ply)
             = Rejected (Exception ''Error'' ''Upload to GCS failed (403)'')"
    by (simp add: uploadToGcs_def host_quota_def sample_defs module_defs)
  show ?thesis
    by (simp add: a b raises_def spec_message_def templated_def sample_kinds sample_statuses)
qed

subsection \<open>C5: the message of a failed upload\<close>

text \<open>
  C5. When the upload (the \<^verbatim>\<open>PUT\<close> of phase 2) is answered with a non-success status
  \<open>s\<close>, \<^verbatim>\<open>uploadToGcs\<close> raises the error whose message is \<^verbatim>\<open>Upload to GCS failed (s)\<close>,
  whatever the body of the response, and the one popup the handler shows is the error
  popup with exactly this message.
\<close>

theorem upload_failure_message:
  assumes "fetch H req = Fulfilled res" and "\<not> ok res"
  shows "(Fetch req \<in> set (snd (uploadToGcs H uploadUrl data)) \<longrightarrow>
            fst (uploadToGcs H uploadUrl data) =
              Rejected (Exception ''Error''
                (''Upload to GCS failed ('' @ decimal (status res) @ '')''))) \<and>
         (is_upload req \<and> Fetch req \<in> set (snd (save_handler P H gsConfig)) \<longrightarrow>
            popups (snd (save_handler P H gsConfig)) =
              [error_popup (''Upload to GCS failed ('' @ decimal (status res) @ '')'')])"
proof (intro conjI impI)
  assume "Fetch req \<in> set (snd (uploadToGcs H uploadUrl data))"
  then have "req = put_request uploadUrl data"
    by (simp add: uploadToGcs_eq)
  then show "fst (uploadToGcs H uploadUrl data) =
      Rejected (Exception ''Error'' (''Upload to GCS failed ('' @ decimal (status res) @ '')''))"
    using assms by (simp add: uploadToGcs_eq)
next
  let ?msg = "''Upload to GCS failed ('' @ decimal (status res) @ '')''"
  assume a: "is_upload req \<and> Fetch req \<in> set (snd (save_handler P H gsConfig))"
  obtain r t where rt: "save_try P H gsConfig = (r, t)"
    by fastforce
  have in_F: "req \<in> set (fetches t)"
    using a by (simp add: set_fetches [symmetric] save_handler_fetches rt)
  from save_try_run [of P H gsConfig] have "save_run P H (r, t)"
    by (simp add: rt)
  then have "r = Rejected (Exception ''Error'' ?msg) \<and> popups t = []"
  proof cases
    case at_export
    then show ?thesis using in_F by simp
  next
    case (at_request r1)
    then show ?thesis using in_F a upload_url_not_upload by auto
  next
    case (at_upload r1 r2 res1 ticket)
    then show ?thesis using in_F a assms upload_url_not_upload by auto
  next
    case (at_confirm_failed r1 r2 r3 res1 ticket res2 sp sid)
    then show ?thesis
      using in_F a assms upload_url_not_upload confirmation_not_upload by auto
  next
    case (at_confirmed r1 r2 r3 res1 ticket res2 sp sid)
    then show ?thesis
      using in_F a assms upload_url_not_upload confirmation_not_upload by auto
  qed
  then show "popups (snd (save_handler P H gsConfig)) = [error_popup ?msg]"
    using rt by (simp add: save_handler_popups_Rejected save_catch_Error)
qed

text \<open>The storage answers the upload with 500 and a body that is not JSON.\<close>

theorem upload_failure_message_witness:
  "fetch host_upload_fails sample_upload = Fulfilled server_error_response \<and>
   \<not> ok server_error_response \<and> status server_error_response = 500 \<and>
   json server_error_response = Rejected (Exception ''SyntaxError'' ''Unexpected end of JSON input'') \<and>
   Fetch sample_upload \<in> set (snd (uploadToGcs host_upload_fails (Json (JStr ''https://storage.example/signed'')) sample_ply)) \<and>
   fst (uploadToGcs host_upload_fails (Json (JStr ''https://storage.example/signed'')) sample_ply) =
     Rejected (Exception ''Error'' ''Upload to GCS failed (500)'') \<and>
   is_upload sample_upload \<and>
   Fetch sample_upload \<in> set (snd (save_handler browser host_upload_fails sample_config)) \<and>
   popups (snd (save_handler browser host_upload_fails sample_config)) =
     [error_popup ''Upload to GCS failed (500)'']"
proof -
  have nok: "\<not> ok server_error_response" and st: "status server_error_response = 500"
    and js: "json server_error_response =
               Rejected (Exception ''SyntaxError'' ''Unexpected end of JSON input'')"
    by (simp_all add: server_error_response_def)
  have d: "decimal 500 = ''500''"
    by (simp add: decimal.simps)
  have a: "Fetch sample_upload \<in> set (snd (uploadToGcs host_upload_fails
             (Json (JStr ''https://storage.example/signed'')) sample_ply))"
    by (simp add: uploadToGcs_eq put_request_def sample_upload_def sample_ply_def)
  have b: "Fetch sample_upload \<in> set (snd (save_handler browser host_upload_fails sample_config))"
    by (simp add: run_upload_fails)
  from upload_failure_message [OF sample_fetches(6) nok,
      of "Json (JStr ''https://storage.example/signed'')" sample_ply browser sample_config]
  show ?thesis
    using a b nok st js d sample_fetches(6) sample_phases(2) by simp
qed

subsection \<open>C6: a save in which the three requests succeed\<close>

text \<open>
  C6, as amended. When the three requests of a run were sent and the confirmation was
  answered with a success status, then the \<^verbatim>\<open>storagePath\<close> in the body of the
  confirmation is the \<^verbatim>\<open>storagePath\<close> property of the JSON that phase 1 returned, the
  first popup shown is the success popup, and it is the only popup unless the call that
  shows it throws. (The first two requests were answered with success, or the third
  would not have been sent.)
\<close>

theorem success_popup_and_storage_path:
  assumes "fetches (snd (save_handler P H gsConfig)) = [req1, req2, req3]"
    and "fetch H req1 = Fulfilled res1"
    and "fetch H req3 = Fulfilled res3" and "ok res3"
  shows "(\<exists>ticket sp sid.
            json res1 = Fulfilled ticket \<and>
            get_prop P (Json ticket) ''storagePath'' = Inr sp \<and>
            body req3 = JSON_stringify [(''splatId'', sid), (''storagePath'', sp)]) \<and>
         (\<exists>res2. ok res1 \<and> fetch H req2 = Fulfilled res2 \<and> ok res2) \<and>
         (\<exists>rest. popups (snd (save_handler P H gsConfig)) = success_popup # rest) \<and>
         ((\<forall>e. invoke H ''showPopup'' success_popup \<noteq> Rejected e) \<longrightarrow>
            popups (snd (save_handler P H gsConfig)) = [success_popup])"
proof -
  obtain r t where rt: "save_try P H gsConfig = (r, t)"
    by fastforce
  have F: "fetches t = [req1, req2, req3]"
    using assms(1) by (simp add: save_handler_fetches rt)
  from save_try_run [of P H gsConfig] have "save_run P H (r, t)"
    by (simp add: rt)
  then show ?thesis
  proof cases
    case (at_confirmed r1 r2 r3 res1' ticket res2 sp sid)
    have eqs: "r1 = req1" "r2 = req2" "r3 = req3"
      using F at_confirmed(1) by simp_all
    have first: "\<exists>ticket sp sid.
            json res1 = Fulfilled ticket \<and>
            get_prop P (Json ticket) ''storagePath'' = Inr sp \<and>
            body req3 = JSON_stringify [(''splatId'', sid), (''storagePath'', sp)]"
      using at_confirmed eqs assms(2) by auto
    have second: "\<exists>res2. ok res1 \<and> fetch H req2 = Fulfilled res2 \<and> ok res2"
      using at_confirmed eqs assms(2) by auto
    have third: "\<exists>rest. popups (snd (save_handler P H gsConfig)) = success_popup # rest"
    proof (cases "\<exists>e. r = Rejected e")
      case True
      then obtain e where "r = Rejected e" by blast
      then show ?thesis
        using rt at_confirmed(13) by (simp add: save_handler_popups_Rejected)
    next
      case False
      then show ?thesis
        using rt at_confirmed(13) by (simp add: save_handler_popups_other)
    qed
    have fourth: "(\<forall>e. invoke H ''showPopup'' success_popup \<noteq> Rejected e) \<longrightarrow>
            popups (snd (save_handler P H gsConfig)) = [success_popup]"
      using rt at_confirmed(13,14) by (simp add: save_handler_popups_other)
    from first second third fourth show ?thesis
      by blast
  next
    case (at_confirm_failed r1 r2 r3 res1' ticket res2 sp sid)
    then show ?thesis
      using F assms(3,4) by (simp add: succeeds_def)
  qed (use F in simp_all)
qed

text \<open>Scenario A of the specification: one visible splat, three requests that succeed.\<close>

theorem success_popup_and_storage_path_witness:
  "fetches (snd (save_handler browser host_ok sample_config))
     = [sample_upload_url_request, sample_upload, sample_confirmation] \<and>
   fetch host_ok sample_upload_url_request = Fulfilled ticket_response \<and>
   fetch host_ok sample_confirmation = Fulfilled empty_ok_response \<and>
   ok empty_ok_response \<and>
   json ticket_response =
     Fulfilled (JObj [(''uploadUrl'', JStr ''https://storage.example/signed''),
                      (''storagePath'', JStr ''splats/splat-42/edited.ply'')]) \<and>
   body sample_confirmation =
     JSON_stringify [(''splatId'', Json (JStr ''splat-42'')),
                     (''storagePath'', Json (JStr ''splats/splat-42/edited.ply''))] \<and>
   popups (snd (save_handler browser host_ok sample_config)) = [success_popup]"
proof -
  have F: "fetches (snd (save_handler browser host_ok sample_config))
             = [sample_upload_url_request, sample_upload, sample_confirmation]"
    by (simp add: run_ok)
  have k: "ok empty_ok_response"
    by (simp add: empty_ok_response_def)
  have quiet: "\<forall>e. invoke host_ok ''showPopup'' success_popup \<noteq> Rejected e"
    by (simp add: host_ok_def sample_host_def)
  from success_popup_and_storage_path [OF F sample_fetches(1) sample_fetches(3) k] quiet
  have "popups (snd (save_handler browser host_ok sample_config)) = [success_popup]"
    by blast
  then show ?thesis
    using F k sample_fetches(1,3)
    by (simp add: ticket_response_def sample_confirmation_def)
qed

text \<open>
  The claim as the specification states it fails where the call that shows the success
  popup throws: the three requests succeeded, and the last popup shown is the error
  popup.
\<close>

theorem success_popup_and_storage_path_counterexample:
  "fetches (snd (save_handler browser host_popup_fails sample_config))
     = [sample_upload_url_request, sample_upload, sample_confirmation] \<and>
   fetch host_popup_fails sample_upload_url_request = Fulfilled ticket_response \<and>
   fetch host_popup_fails sample_upload = Fulfilled empty_ok_response \<and>
   fetch host_popup_fails sample_confirmation = Fulfilled empty_ok_response \<and>
   ok ticket_response \<and> ok empty_ok_response \<and>
   popups (snd (save_handler browser host_popup_fails sample_config))
     = [success_popup, error_popup ''popup closed''] \<and>
   last (popups (snd (save_handler browser host_popup_fails sample_config))) \<noteq> success_popup"
  by (simp add: run_popup_fails sample_fetches ticket_response_def empty_ok_response_def)

subsection \<open>C7: the presence test\<close>

lemma URLSearchParams_has_iff: "URLSearchParams_has params name \<longleftrightarrow> name \<in> fst ` set params"
  by (induction params name rule: URLSearchParams_has.induct) auto

text \<open>
  C7. \<^verbatim>\<open>isGigaScapeMode\<close> is true exactly when the query has a pair named \<^verbatim>\<open>gsConfig\<close>.
  Its value is not looked at: the function takes no platform, so it neither decodes nor
  parses.
\<close>

theorem isGigaScapeMode_iff_key_present:
  "isGigaScapeMode params \<longleftrightarrow> ''gsConfig'' \<in> fst ` set params"
  by (simp add: isGigaScapeMode_def URLSearchParams_has_iff)

text \<open>A value that is not base64 activates the feature, and the resolver returns null on it.\<close>

theorem isGigaScapeMode_iff_key_present_witness:
  "isGigaScapeMode [(''scene'', ''demo''), (''gsConfig'', ''%%%'')] \<and>
   fst (parseGsConfig browser [(''scene'', ''demo''), (''gsConfig'', ''%%%'')]) = None \<and>
   \<not> isGigaScapeMode [(''scene'', ''demo'')]"
proof -
  have "fst (parseGsConfig browser [(''scene'', ''demo''), (''gsConfig'', ''%%%'')]) = None"
    by (simp add: parseGsConfig_def parseGsConfig_try_def browser_def sample_atob_def)
  then show ?thesis
    using isGigaScapeMode_iff_key_present [of "[(''scene'', ''demo''), (''gsConfig'', ''%%%'')]"]
      isGigaScapeMode_iff_key_present [of "[(''scene'', ''demo'')]"]
    by simp
qed

subsection \<open>C8: the resolver fails soft\<close>

text \<open>
  The resolver in terms of what the query value decodes to. It has no way to raise:
  \<^verbatim>\<open>atob\<close>, \<^verbatim>\<open>JSON.parse\<close> and the property reads are inside the \<^verbatim>\<open>try\<close> block, whose
  \<^verbatim>\<open>catch\<close> warns and returns null.
\<close>

lemma parseGsConfig_try_resolves:
  "resolves P encoded \<Longrightarrow>
   \<exists>text config. atob P encoded = Inr text \<and> JSON_parse P text = Inr config \<and>
     parseGsConfig_try P encoded = Inr (Some config, [])"
  unfolding resolves_def required_fields_truthy_def field_truthy_def parseGsConfig_try_def
  by (auto split: sum.splits)

lemma parseGsConfig_try_fails:
  "\<not> resolves P encoded \<Longrightarrow>
   (\<exists>e. parseGsConfig_try P encoded = Inl e) \<or>
   parseGsConfig_try P encoded =
     Inr (None, [Console ''warn'' ''[GigaScape] gsConfig missing required fields'' []])"
  unfolding resolves_def required_fields_truthy_def field_truthy_def parseGsConfig_try_def
  by (auto split: sum.splits)

text \<open>
  C8, as amended. For a query value that is not empty and does not resolve (it is not
  base64, or what it decodes to is not JSON, or the JSON lacks a truthy \<^verbatim>\<open>splatId\<close>,
  \<^verbatim>\<open>apiOrigin\<close> or \<^verbatim>\<open>authToken\<close>), the resolver returns null and logs exactly one warning.
  For the empty value it returns null and logs nothing.
\<close>

theorem parseGsConfig_fails_soft:
  assumes "URLSearchParams_get params ''gsConfig'' = Some encoded"
  shows "(encoded = [] \<longrightarrow> parseGsConfig P params = (None, [])) \<and>
         (encoded \<noteq> [] \<and> \<not> resolves P encoded \<longrightarrow>
            fst (parseGsConfig P params) = None \<and>
            (\<exists>ev. snd (parseGsConfig P params) = [ev] \<and> is_warning ev))"
proof (intro conjI impI)
  assume "encoded = []"
  then show "parseGsConfig P params = (None, [])"
    using assms by (simp add: parseGsConfig_def)
next
  assume a: "encoded \<noteq> [] \<and> \<not> resolves P encoded"
  from a parseGsConfig_try_fails [of P encoded]
  show "fst (parseGsConfig P params) = None"
    using assms by (auto simp: parseGsConfig_def)
  from a parseGsConfig_try_fails [of P encoded]
  show "\<exists>ev. snd (parseGsConfig P params) = [ev] \<and> is_warning ev"
    using assms by (auto simp: parseGsConfig_def is_warning_def)
qed

lemma sample_decoding:
  "atob browser ''%%%'' = Inl (Exception ''InvalidCharacterError''
      ''The string to be decoded is not correctly encoded.'')"
  "atob browser ''bm90IGpzb24='' = Inr ''not json''"
  "JSON_parse browser ''not json'' = Inl (Exception ''SyntaxError'' ''The text is not valid JSON'')"
  "atob browser [] = Inr []"
  "JSON_parse browser [] = Inl (Exception ''SyntaxError'' ''The text is not valid JSON'')"
  by (simp_all add: browser_def sample_atob_def sample_JSON_parse_def)

lemma sample_not_resolved:
  "\<not> resolves browser ''%%%''"
  "\<not> resolves browser ''bm90IGpzb24=''"
  "\<not> resolves browser ''bnVsbA==''"
  "\<not> resolves browser
      ''eyJzcGxhdElkIjoic3BsYXQtNDIiLCJ1c2VySWQiOiJ1c2VyLTciLCJhcGlPcmlnaW4iOiJodHRwczovL2dpZ2FzY2FwZS5leGFtcGxlIn0=''"
  "\<not> resolves browser []"
  by (simp_all add: resolves_def required_fields_truthy_def field_truthy_def
        browser_def sample_atob_def sample_JSON_parse_def)

text \<open>
  A value that is not base64, the base64 of \<^verbatim>\<open>not json\<close>, of \<^verbatim>\<open>null\<close>, and of a
  configuration without \<^verbatim>\<open>authToken\<close>.
\<close>

theorem parseGsConfig_fails_soft_witness:
  "fst (parseGsConfig browser [(''gsConfig'', ''%%%'')]) = None \<and>
   (\<exists>ev. snd (parseGsConfig browser [(''gsConfig'', ''%%%'')]) = [ev] \<and> is_warning ev) \<and>
   fst (parseGsConfig browser [(''gsConfig'', ''bm90IGpzb24='')]) = None \<and>
   (\<exists>ev. snd (parseGsConfig browser [(''gsConfig'', ''bm90IGpzb24='')]) = [ev] \<and> is_warning ev) \<and>
   fst (parseGsConfig browser [(''gsConfig'', ''bnVsbA=='')]) = None \<and>
   (\<exists>ev. snd (parseGsConfig browser [(''gsConfig'', ''bnVsbA=='')]) = [ev] \<and> is_warning ev) \<and>
   parseGsConfig browser
     [(''gsConfig'', ''eyJzcGxhdElkIjoic3BsYXQtNDIiLCJ1c2VySWQiOiJ1c2VyLTciLCJhcGlPcmlnaW4iOiJodHRwczovL2dpZ2FzY2FwZS5leGFtcGxlIn0='')]
     = (None, [Console ''warn'' ''[GigaScape] gsConfig missing required fields'' []]) \<and>
   parseGsConfig browser [(''gsConfig'', [])] = (None, [])"
proof -
  have g: "URLSearchParams_get [(''gsConfig'', v)] ''gsConfig'' = Some v" for v
    by simp
  have "parseGsConfig browser
     [(''gsConfig'', ''eyJzcGxhdElkIjoic3BsYXQtNDIiLCJ1c2VySWQiOiJ1c2VyLTciLCJhcGlPcmlnaW4iOiJodHRwczovL2dpZ2FzY2FwZS5leGFtcGxlIn0='')]
     = (None, [Console ''warn'' ''[GigaScape] gsConfig missing required fields'' []])"
    by (simp add: parseGsConfig_def parseGsConfig_try_def browser_def sample_atob_def
          sample_JSON_parse_def)
  then show ?thesis
    using parseGsConfig_fails_soft [OF g, of "''%%%''" browser]
      parseGsConfig_fails_soft [OF g, of "''bm90IGpzb24=''" browser]
      parseGsConfig_fails_soft [OF g, of "''bnVsbA==''" browser]
      parseGsConfig_fails_soft [OF g, of "[]" browser]
      sample_not_resolved
    by simp
qed

text \<open>
  The claim as the specification states it fails on the empty value (\<^verbatim>\<open>?gsConfig=\<close>): it
  decodes to the empty text, which is not JSON, and the resolver returns null without a
  warning.
\<close>

theorem parseGsConfig_fails_soft_counterexample:
  "URLSearchParams_get [(''gsConfig'', [])] ''gsConfig'' = Some [] \<and>
   atob browser [] = Inr [] \<and>
   JSON_parse browser [] = Inl (Exception ''SyntaxError'' ''The text is not valid JSON'') \<and>
   \<not> resolves browser [] \<and>
   parseGsConfig browser [(''gsConfig'', [])] = (None, []) \<and>
   \<not> (\<exists>ev. snd (parseGsConfig browser [(''gsConfig'', [])]) = [ev] \<and> is_warning ev)"
  by (simp add: sample_decoding sample_not_resolved parseGsConfig_def)

subsection \<open>C9 and C10: a configuration that resolves\<close>

lemma parseGsConfig_resolved:
  assumes "required_fields_truthy P config" and "encodes P encoded config"
    and "URLSearchParams_get params ''gsConfig'' = Some encoded"
  shows "parseGsConfig P params = (Some config, [])"
proof -
  from assms(2) obtain decoded where
    d: "encoded \<noteq> []" "atob P encoded = Inr decoded" "JSON_parse P decoded = Inr config"
    by (auto simp: encodes_def split: sum.splits)
  have "parseGsConfig_try P encoded = Inr (Some config, [])"
    using assms(1) d
    unfolding required_fields_truthy_def field_truthy_def parseGsConfig_try_def
    by (auto split: sum.splits)
  then show ?thesis
    using assms(3) d(1) by (simp add: parseGsConfig_def)
qed

lemma string_field_truthy: "string_field config k \<Longrightarrow> field_truthy P config k"
  unfolding string_field_def field_truthy_def
  by (auto split: json.splits option.splits)

lemma valid_config_required: "valid_config config \<Longrightarrow> required_fields_truthy P config"
  by (simp add: valid_config_def required_fields_truthy_def string_field_truthy)

text \<open>
  C9. For a valid configuration (an object whose \<^verbatim>\<open>splatId\<close>, \<^verbatim>\<open>apiOrigin\<close> and
  \<^verbatim>\<open>authToken\<close> are non-empty strings) and a query value that encodes it, the resolver
  returns that configuration, unchanged, and logs nothing: decoding what was encoded
  gives the configuration back, whatever its other properties are.
\<close>

theorem decode_encode_roundtrip:
  assumes "valid_config config" and "encodes P encoded config"
    and "URLSearchParams_get params ''gsConfig'' = Some encoded"
  shows "parseGsConfig P params = (Some config, [])"
  using valid_config_required [OF assms(1)] assms(2,3) by (rule parseGsConfig_resolved)

lemma sample_encodes:
  "encodes browser
     ''eyJzcGxhdElkIjoic3BsYXQtNDIiLCJ1c2VySWQiOiJ1c2VyLTciLCJhcGlPcmlnaW4iOiJodHRwczovL2dpZ2FzY2FwZS5leGFtcGxlIiwiYXV0aFRva2VuIjoidG9rZW4ifQ==''
     sample_config"
  "encodes browser
     ''eyJzcGxhdElkIjoic3BsYXQtNDIiLCJhcGlPcmlnaW4iOiJodHRwczovL2dpZ2FzY2FwZS5leGFtcGxlIiwiYXV0aFRva2VuIjoidG9rZW4ifQ==''
     (JObj [(''splatId'', JStr ''splat-42''),
            (''apiOrigin'', JStr ''https://gigascape.example''), (''authToken'', JStr ''token'')])"
  "encodes browser
     ''eyJzcGxhdElkIjoic3BsYXQtNDIiLCJ1c2VySWQiOiIiLCJhcGlPcmlnaW4iOiJodHRwczovL2dpZ2FzY2FwZS5leGFtcGxlIiwiYXV0aFRva2VuIjoidG9rZW4ifQ==''
     (JObj [(''splatId'', JStr ''splat-42''), (''userId'', JStr []),
            (''apiOrigin'', JStr ''https://gigascape.example''), (''authToken'', JStr ''token'')])"
  "encodes browser
     ''eyJzcGxhdElkIjoic3BsYXQtNDIiLCJ1c2VySWQiOjcsImFwaU9yaWdpbiI6Imh0dHBzOi8vZ2lnYXNjYXBlLmV4YW1wbGUiLCJhdXRoVG9rZW4iOiJ0b2tlbiJ9''
     (JObj [(''splatId'', JStr ''splat-42''), (''userId'', JNum 7),
            (''apiOrigin'', JStr ''https://gigascape.example''), (''authToken'', JStr ''token'')])"
  by (simp_all add: encodes_def browser_def sample_atob_def sample_JSON_parse_def)

text \<open>The sample configuration and its base64.\<close>

theorem decode_encode_roundtrip_witness:
  "valid_config sample_config \<and>
   parseGsConfig browser
     [(''gsConfig'', ''eyJzcGxhdElkIjoic3BsYXQtNDIiLCJ1c2VySWQiOiJ1c2VyLTciLCJhcGlPcmlnaW4iOiJodHRwczovL2dpZ2FzY2FwZS5leGFtcGxlIiwiYXV0aFRva2VuIjoidG9rZW4ifQ=='')]
     = (Some (JObj [(''splatId'', JStr ''splat-42''), (''userId'', JStr ''user-7''),
                    (''apiOrigin'', JStr ''https://gigascape.example''),
                    (''authToken'', JStr ''token'')]), [])"
proof -
  have v: "valid_config sample_config"
    by (simp add: valid_config_def string_field_def sample_config_def)
  have g: "URLSearchParams_get [(''gsConfig'', e)] ''gsConfig'' = Some e" for e
    by simp
  from decode_encode_roundtrip [OF v sample_encodes(1) g] v show ?thesis
    by (simp add: sample_config_def)
qed

text \<open>The required properties of an object do not depend on its \<^verbatim>\<open>userId\<close>.\<close>

lemma map_of_with_userId:
  "k \<noteq> ''userId'' \<Longrightarrow>
   map_of (case u of None \<Rightarrow> AList.delete ''userId'' kvs
           | Some v \<Rightarrow> AList.update ''userId'' v kvs) k = map_of kvs k"
  by (cases u) (simp_all add: delete_conv' update_conv')

lemma field_truthy_with_userId:
  "k \<noteq> ''userId'' \<Longrightarrow> field_truthy P (with_userId u kvs) k = field_truthy P (JObj kvs) k"
  by (simp add: field_truthy_def with_userId_def map_of_with_userId)

lemma userId_of_with_userId:
  "get_prop P (Json (with_userId u kvs)) ''userId''
     = Inr (case u of None \<Rightarrow> Undefined | Some v \<Rightarrow> Json v)"
  by (cases u) (simp_all add: with_userId_def delete_conv' update_conv')

text \<open>
  C10. The resolver does not look at \<^verbatim>\<open>userId\<close>. Take an object whose \<^verbatim>\<open>splatId\<close>,
  \<^verbatim>\<open>apiOrigin\<close> and \<^verbatim>\<open>authToken\<close> are truthy and give its \<^verbatim>\<open>userId\<close> any content \<open>u\<close>: none
  at all, the empty string, a value that is not a string. For a query value that encodes
  the result, the resolver returns it as the configuration, with that \<^verbatim>\<open>userId\<close>.
\<close>

theorem userId_not_validated:
  assumes "required_fields_truthy P (JObj kvs)"
    and "encodes P encoded (with_userId u kvs)"
    and "URLSearchParams_get params ''gsConfig'' = Some encoded"
  shows "parseGsConfig P params = (Some (with_userId u kvs), []) \<and>
         get_prop P (Json (with_userId u kvs)) ''userId''
           = Inr (case u of None \<Rightarrow> Undefined | Some v \<Rightarrow> Json v)"
proof -
  have "required_fields_truthy P (with_userId u kvs)"
    using assms(1) by (simp add: required_fields_truthy_def field_truthy_with_userId)
  then have "parseGsConfig P params = (Some (with_userId u kvs), [])"
    using assms(2,3) by (rule parseGsConfig_resolved)
  then show ?thesis
    by (simp add: userId_of_with_userId)
qed

text \<open>The sample configuration without \<^verbatim>\<open>userId\<close>, with an empty one, and with the number 7.\<close>

theorem userId_not_validated_witness:
  "parseGsConfig browser
     [(''gsConfig'', ''eyJzcGxhdElkIjoic3BsYXQtNDIiLCJhcGlPcmlnaW4iOiJodHRwczovL2dpZ2FzY2FwZS5leGFtcGxlIiwiYXV0aFRva2VuIjoidG9rZW4ifQ=='')]
     = (Some (JObj [(''splatId'', JStr ''splat-42''),
                    (''apiOrigin'', JStr ''https://gigascape.example''),
                    (''authToken'', JStr ''token'')]), []) \<and>
   parseGsConfig browser
     [(''gsConfig'', ''eyJzcGxhdElkIjoic3BsYXQtNDIiLCJ1c2VySWQiOiIiLCJhcGlPcmlnaW4iOiJodHRwczovL2dpZ2FzY2FwZS5leGFtcGxlIiwiYXV0aFRva2VuIjoidG9rZW4ifQ=='')]
     = (Some (JObj [(''splatId'', JStr ''splat-42''), (''userId'', JStr []),
                    (''apiOrigin'', JStr ''https://gigascape.example''),
                    (''authToken'', JStr ''token'')]), []) \<and>
   parseGsConfig browser
     [(''gsConfig'', ''eyJzcGxhdElkIjoic3BsYXQtNDIiLCJ1c2VySWQiOjcsImFwaU9yaWdpbiI6Imh0dHBzOi8vZ2lnYXNjYXBlLmV4YW1wbGUiLCJhdXRoVG9rZW4iOiJ0b2tlbiJ9'')]
     = (Some (JObj [(''splatId'', JStr ''splat-42''), (''userId'', JNum 7),
                    (''apiOrigin'', JStr ''https://gigascape.example''),
                    (''authToken'', JStr ''token'')]), [])"
proof -
  let ?kvs = "[(''splatId'', JStr ''splat-42''), (''userId'', JStr ''user-7''),
               (''apiOrigin'', JStr ''https://gigascape.example''),
               (''authToken'', JStr ''token'')]"
  have r: "required_fields_truthy browser (JObj ?kvs)"
    by (simp add: required_fields_truthy_def field_truthy_def)
  have w: "with_userId None ?kvs =
             JObj [(''splatId'', JStr ''splat-42''),
                   (''apiOrigin'', JStr ''https://gigascape.example''),
                   (''authToken'', JStr ''token'')]"
    "with_userId (Some (JStr [])) ?kvs =
             JObj [(''splatId'', JStr ''splat-42''), (''userId'', JStr []),
                   (''apiOrigin'', JStr ''https://gigascape.example''),
                   (''authToken'', JStr ''token'')]"
    "with_userId (Some (JNum 7)) ?kvs =
             JObj [(''splatId'', JStr ''splat-42''), (''userId'', JNum 7),
                   (''apiOrigin'', JStr ''https://gigascape.example''),
                   (''authToken'', JStr ''token'')]"
    by (simp_all add: with_userId_def AList.delete_eq)
  have g: "URLSearchParams_get [(''gsConfig'', e)] ''gsConfig'' = Some e" for e
    by simp
  show ?thesis
    using userId_not_validated [OF r, of _ None, OF _ g]
      userId_not_validated [OF r, of _ "Some (JStr [])", OF _ g]
      userId_not_validated [OF r, of _ "Some (JNum 7)", OF _ g]
      sample_encodes(2,3,4)
    by (simp add: w)
qed

section \<open>The registration\<close>

text \<open>
  \<^verbatim>\<open>initGigaScapeIntegration\<close> registers the handler with the configuration the resolver
  returned, and never throws: the property it logs was read before, inside the
  resolver.
\<close>

lemma initGigaScapeIntegration_registers:
  "initGigaScapeIntegration P H params =
     (case parseGsConfig P params of
        (None, t) \<Rightarrow> Inr (None, t)
      | (Some gsConfig, t) \<Rightarrow>
          Inr (Some (save_handler P H gsConfig),
               t @ [Console ''log'' ''[GigaScape] Integration active for splat:''
                      [case gsConfig of
                         JObj kvs \<Rightarrow> (case map_of kvs ''splatId'' of
                                       None \<Rightarrow> Undefined | Some v \<Rightarrow> Json v)
                       | other_json \<Rightarrow> Undefined]]))"
  unfolding initGigaScapeIntegration_def parseGsConfig_def parseGsConfig_try_def
  by (auto split: option.splits sum.splits json.splits)

end
